theory Spec2Isabelle
  imports Complex_Main
begin

section \<open>JavaScript numbers\<close>

text \<open>
  The script computes with JavaScript numbers. They are modelled as the reals extended by
  the two infinities and NaN, with the operation tables of the language for the special
  values. Two things are idealised: finite results are exact (no rounding to a double, no
  overflow of a finite computation), and there is one zero, which behaves as \<open>+0\<close>.
  \<open>Math.PI\<close> and the functions of \<open>Math\<close> stand for \<open>\<pi>\<close> and the real functions.
  Where a property is about one particular double, the double is written as the rational
  it is.
\<close>

datatype jsnum = Fin real | PInf | NInf | NaN

definition sgnInf :: "real \<Rightarrow> jsnum" where
  \<comment> \<open>the infinity of the sign of \<open>s\<close>; NaN where there is no sign to take\<close>
  "sgnInf s = (if 0 < s then PInf else if s < 0 then NInf else NaN)"

fun js_neg :: "jsnum \<Rightarrow> jsnum" where
  "js_neg (Fin a) = Fin (- a)"
| "js_neg PInf = NInf"
| "js_neg NInf = PInf"
| "js_neg NaN = NaN"

fun js_add :: "jsnum \<Rightarrow> jsnum \<Rightarrow> jsnum" where
  "js_add (Fin a) (Fin b) = Fin (a + b)"
| "js_add NaN y = NaN"
| "js_add x NaN = NaN"
| "js_add PInf NInf = NaN"
| "js_add NInf PInf = NaN"
| "js_add PInf y = PInf"
| "js_add x PInf = PInf"
| "js_add NInf y = NInf"
| "js_add x NInf = NInf"

definition js_sub :: "jsnum \<Rightarrow> jsnum \<Rightarrow> jsnum" where
  "js_sub x y = js_add x (js_neg y)"

fun js_mul :: "jsnum \<Rightarrow> jsnum \<Rightarrow> jsnum" where
  "js_mul (Fin a) (Fin b) = Fin (a * b)"
| "js_mul NaN y = NaN"
| "js_mul x NaN = NaN"
| "js_mul PInf (Fin b) = sgnInf b"
| "js_mul (Fin a) PInf = sgnInf a"
| "js_mul NInf (Fin b) = sgnInf (- b)"
| "js_mul (Fin a) NInf = sgnInf (- a)"
| "js_mul PInf PInf = PInf"
| "js_mul PInf NInf = NInf"
| "js_mul NInf PInf = NInf"
| "js_mul NInf NInf = PInf"

fun js_div :: "jsnum \<Rightarrow> jsnum \<Rightarrow> jsnum" where
  "js_div (Fin a) (Fin b) = (if b = 0 then sgnInf a else Fin (a / b))"
| "js_div NaN y = NaN"
| "js_div x NaN = NaN"
| "js_div (Fin a) PInf = Fin 0"
| "js_div (Fin a) NInf = Fin 0"
| "js_div PInf (Fin b) = (if 0 \<le> b then PInf else NInf)"
| "js_div NInf (Fin b) = (if 0 \<le> b then NInf else PInf)"
| "js_div PInf PInf = NaN"
| "js_div PInf NInf = NaN"
| "js_div NInf PInf = NaN"
| "js_div NInf NInf = NaN"

definition truncQuotient :: "real \<Rightarrow> int" where
  \<comment> \<open>rounding towards zero\<close>
  "truncQuotient q = (if 0 \<le> q then \<lfloor>q\<rfloor> else \<lceil>q\<rceil>)"

fun js_rem :: "jsnum \<Rightarrow> jsnum \<Rightarrow> jsnum" where
  \<comment> \<open>the operator \<open>%\<close>: the remainder of the truncated division, with the dividend's sign\<close>
  "js_rem (Fin a) (Fin b) = (if b = 0 then NaN else Fin (a - b * of_int (truncQuotient (a / b))))"
| "js_rem (Fin a) PInf = Fin a"
| "js_rem (Fin a) NInf = Fin a"
| "js_rem x y = NaN"

fun js_lt :: "jsnum \<Rightarrow> jsnum \<Rightarrow> bool" where
  "js_lt (Fin a) (Fin b) = (a < b)"
| "js_lt NaN y = False"
| "js_lt x NaN = False"
| "js_lt x NInf = False"
| "js_lt PInf y = False"
| "js_lt NInf y = True"
| "js_lt x PInf = True"

fun js_le :: "jsnum \<Rightarrow> jsnum \<Rightarrow> bool" where
  "js_le (Fin a) (Fin b) = (a \<le> b)"
| "js_le NaN y = False"
| "js_le x NaN = False"
| "js_le NInf y = True"
| "js_le x PInf = True"
| "js_le x NInf = False"
| "js_le PInf y = False"

subsection \<open>The functions of \<open>Math\<close> the script calls\<close>

definition Math_PI :: jsnum where
  "Math_PI = Fin pi"

fun Math_abs :: "jsnum \<Rightarrow> jsnum" where
  "Math_abs (Fin a) = Fin \<bar>a\<bar>"
| "Math_abs PInf = PInf"
| "Math_abs NInf = PInf"
| "Math_abs NaN = NaN"

fun Math_min :: "jsnum \<Rightarrow> jsnum \<Rightarrow> jsnum" where
  "Math_min (Fin a) (Fin b) = Fin (min a b)"
| "Math_min NaN y = NaN"
| "Math_min x NaN = NaN"
| "Math_min NInf y = NInf"
| "Math_min x NInf = NInf"
| "Math_min PInf y = y"
| "Math_min x PInf = x"

fun Math_sqrt :: "jsnum \<Rightarrow> jsnum" where
  "Math_sqrt (Fin a) = (if a < 0 then NaN else Fin (sqrt a))"
| "Math_sqrt PInf = PInf"
| "Math_sqrt NInf = NaN"
| "Math_sqrt NaN = NaN"

definition atan2 :: "real \<Rightarrow> real \<Rightarrow> real" where
  \<comment> \<open>the angle of the point \<open>(x, y)\<close>, in \<open>(-\<pi>, \<pi>]\<close>; \<open>0\<close> at the origin\<close>
  "atan2 y x =
     (if 0 < x then arctan (y / x)
      else if x < 0 then (if 0 \<le> y then arctan (y / x) + pi else arctan (y / x) - pi)
      else if 0 < y then pi / 2
      else if y < 0 then - (pi / 2)
      else 0)"

fun Math_atan2 :: "jsnum \<Rightarrow> jsnum \<Rightarrow> jsnum" where
  "Math_atan2 (Fin y) (Fin x) = Fin (atan2 y x)"
| "Math_atan2 NaN x = NaN"
| "Math_atan2 y NaN = NaN"
| "Math_atan2 (Fin y) PInf = Fin 0"
| "Math_atan2 (Fin y) NInf = Fin (if y < 0 then - pi else pi)"
| "Math_atan2 PInf (Fin x) = Fin (pi / 2)"
| "Math_atan2 NInf (Fin x) = Fin (- (pi / 2))"
| "Math_atan2 PInf PInf = Fin (pi / 4)"
| "Math_atan2 PInf NInf = Fin (3 * pi / 4)"
| "Math_atan2 NInf PInf = Fin (- (pi / 4))"
| "Math_atan2 NInf NInf = Fin (- (3 * pi / 4))"

fun Math_tan :: "jsnum \<Rightarrow> jsnum" where
  \<comment> \<open>no double is a pole of the tangent; there the model has no number to give\<close>
  "Math_tan (Fin a) = (if cos a = 0 then NaN else Fin (tan a))"
| "Math_tan x = NaN"

fun Math_sin :: "jsnum \<Rightarrow> jsnum" where
  "Math_sin (Fin a) = Fin (sin a)"
| "Math_sin x = NaN"

fun Math_cos :: "jsnum \<Rightarrow> jsnum" where
  "Math_cos (Fin a) = Fin (cos a)"
| "Math_cos x = NaN"


subsection \<open>\<open>parseFloat\<close> and \<open>parseInt\<close>\<close>

text \<open>
  The two built-ins read a number off the front of a string and return NaN when there is
  none. They are modelled for strings of ASCII characters; the value read is exact.
\<close>

definition isWhiteSpace :: "char \<Rightarrow> bool" where
  "isWhiteSpace c = (c \<in> set [CHR 0x09, CHR 0x0A, CHR 0x0B, CHR 0x0C, CHR 0x0D, CHR '' ''])"

definition digitTable :: "(char \<times> nat) list" where
  "digitTable =
     [(CHR ''0'', 0), (CHR ''1'', 1), (CHR ''2'', 2), (CHR ''3'', 3),
      (CHR ''4'', 4), (CHR ''5'', 5), (CHR ''6'', 6), (CHR ''7'', 7),
      (CHR ''8'', 8), (CHR ''9'', 9), (CHR ''a'', 10), (CHR ''b'', 11),
      (CHR ''c'', 12), (CHR ''d'', 13), (CHR ''e'', 14), (CHR ''f'', 15),
      (CHR ''A'', 10), (CHR ''B'', 11), (CHR ''C'', 12), (CHR ''D'', 13),
      (CHR ''E'', 14), (CHR ''F'', 15)]"

definition digitValue :: "char \<Rightarrow> nat option" where
  \<comment> \<open>the value of a character as a digit of a radix up to 16\<close>
  "digitValue c = map_of digitTable c"

fun takeDigits :: "nat \<Rightarrow> string \<Rightarrow> nat list \<times> string" where
  \<comment> \<open>the values of the leading digits of the radix, and what follows them\<close>
  "takeDigits radix [] = ([], [])"
| "takeDigits radix (c # cs) =
     (case digitValue c of
        None \<Rightarrow> ([], c # cs)
      | Some d \<Rightarrow>
          if d < radix then (d # fst (takeDigits radix cs), snd (takeDigits radix cs))
          else ([], c # cs))"

definition digitsValue :: "nat \<Rightarrow> nat list \<Rightarrow> nat" where
  "digitsValue radix ds = foldl (\<lambda>n d. radix * n + d) 0 ds"

definition takeSign :: "string \<Rightarrow> bool \<times> string" where
  \<comment> \<open>an optional sign: whether it is a minus, and what follows it\<close>
  "takeSign t =
     (case t of
        [] \<Rightarrow> (False, t)
      | c # r \<Rightarrow> if c = CHR ''-'' then (True, r) else if c = CHR ''+'' then (False, r) else (False, t))"

definition exponentPart :: "string \<Rightarrow> int" where
  \<comment> \<open>the exponent \<open>e\<close>, \<open>e+\<close> or \<open>e-\<close> with digits at the front of the string; \<open>0\<close> without one\<close>
  "exponentPart r =
     (case r of
        [] \<Rightarrow> 0
      | c # r' \<Rightarrow>
          if c = CHR ''e'' \<or> c = CHR ''E'' then
            (let ds = fst (takeDigits 10 (snd (takeSign r')))
             in if ds = [] then 0
                else if fst (takeSign r') then - int (digitsValue 10 ds)
                else int (digitsValue 10 ds))
          else 0)"

definition scale10 :: "real \<Rightarrow> int \<Rightarrow> real" where
  "scale10 v e = (if 0 \<le> e then v * 10 ^ nat e else v / 10 ^ nat (- e))"

definition unsignedDecimal :: "string \<Rightarrow> jsnum option" where
  \<comment> \<open>the longest prefix that is \<open>Infinity\<close>, or digits with an optional point and exponent\<close>
  "unsignedDecimal u =
     (if take 8 u = ''Infinity'' then Some PInf
      else
        (let ip = fst (takeDigits 10 u);
             r1 = snd (takeDigits 10 u);
             fr = (case r1 of [] \<Rightarrow> ([], r1)
                   | c # r \<Rightarrow> if c = CHR ''.'' then takeDigits 10 r else ([], r1));
             fp = fst fr;
             r2 = snd fr
         in if ip = [] \<and> fp = [] then None
            else Some (Fin (scale10
                   (real (digitsValue 10 ip) + real (digitsValue 10 fp) / 10 ^ length fp)
                   (exponentPart r2)))))"

definition parseFloat :: "string \<Rightarrow> jsnum" where
  "parseFloat str =
     (let t = dropWhile isWhiteSpace str
      in case unsignedDecimal (snd (takeSign t)) of
           None \<Rightarrow> NaN
         | Some v \<Rightarrow> if fst (takeSign t) then js_neg v else v)"

definition parseInt :: "string \<Rightarrow> jsnum" where
  \<comment> \<open>called without a radix: base 16 after \<open>0x\<close>, base 10 otherwise\<close>
  "parseInt str =
     (let t = dropWhile isWhiteSpace str;
          u = snd (takeSign t);
          hex = (take 2 u = ''0x'' \<or> take 2 u = ''0X'');
          radix = (if hex then 16 else 10);
          ds = fst (takeDigits radix (if hex then drop 2 u else u))
      in if ds = [] then NaN
         else if fst (takeSign t) then Fin (- real (digitsValue radix ds))
         else Fin (real (digitsValue radix ds)))"


section \<open>The data of the script\<close>

text \<open>
  An element of the Overpass answer is a way with optional tags (a map from keys to string
  values) and an optional geometry (its points, each with a latitude and a longitude).
\<close>

record pt =
  lat :: jsnum
  lon :: jsnum

record element =
  tags :: "(string \<rightharpoonup> string) option"
  geometry :: "pt list option"

text \<open>What \<open>SunCalc.getPosition\<close> returns.\<close>

record sunPos =
  azimuth :: jsnum
  altitude :: jsnum

text \<open>
  The sun position is not computed by the script: \<open>getDateForHour\<close> reads today's date
  and \<open>SunCalc.getPosition\<close> is a library. Their composition is a parameter of the model,
  from the hour, the latitude and the longitude to the position. One such function stands
  for all the calls of a run, as if the date did not change while the page is open.
\<close>

type_synonym sunOracle = "jsnum \<Rightarrow> jsnum \<Rightarrow> jsnum \<Rightarrow> sunPos"

text \<open>
  A polygon handed to the map library: its corners and its style. What the library does
  with a polygon is not part of the script; a layer group of the model holds the polygons
  that were handed to \<open>L.polygon\<close> and added to it.
\<close>

type_synonym latlng = "jsnum \<times> jsnum"

record polygon =
  latlngs :: "latlng list"
  color :: string
  fillColor :: string
  fillOpacity :: real
  weight :: nat

text \<open>
  The module's global variables. The map object is represented by the layer groups that
  were added to it, in the order of their creation, each with the polygons it holds; the
  three layer variables are references to groups of the map (indices), undefined before
  the first drawing. A reference keeps the sharing of the source: clearing the group a
  variable refers to clears it on the map.
\<close>

record state =
  mapLayers :: "polygon list list"
  streetData :: "element list"
  buildingData :: "element list"
  streetLayer :: "nat option"
  buildingLayer :: "nat option"
  shadowLayer :: "nat option"

definition initial :: state where
  "initial = \<lparr>mapLayers = [], streetData = [], buildingData = [],
     streetLayer = None, buildingLayer = None, shadowLayer = None\<rparr>"

datatype error = TypeError

definition clearLayers :: "nat option \<Rightarrow> state \<Rightarrow> state" where
  \<comment> \<open>\<open>if (layer) layer.clearLayers()\<close>\<close>
  "clearLayers layer s =
     (case layer of None \<Rightarrow> s | Some l \<Rightarrow> s\<lparr>mapLayers := (mapLayers s)[l := []]\<rparr>)"

definition newLayerGroup :: "state \<Rightarrow> nat \<times> state" where
  \<comment> \<open>\<open>L.layerGroup().addTo(map)\<close>: the new group's reference and the map with it\<close>
  "newLayerGroup s = (length (mapLayers s), s\<lparr>mapLayers := mapLayers s @ [[]]\<rparr>)"

definition addTo :: "polygon list \<Rightarrow> nat option \<Rightarrow> state \<Rightarrow> state" where
  \<comment> \<open>the polygons are added to the group, in their order\<close>
  "addTo ps layer s =
     (case layer of
        None \<Rightarrow> s
      | Some l \<Rightarrow> s\<lparr>mapLayers := (mapLayers s)[l := mapLayers s ! l @ ps]\<rparr>)"

section \<open>\<open>drawStreets\<close>\<close>

definition accepted :: "string list" where
  "accepted = [''primary'', ''secondary'', ''tertiary'', ''residential'']"

definition litPolygon :: "latlng list \<Rightarrow> polygon" where
  "litPolygon quad =
     \<lparr>latlngs = quad, color = ''none'', fillColor = ''gold'', fillOpacity = 7 / 10, weight = 0\<rparr>"

definition bearing :: "latlng \<Rightarrow> latlng \<Rightarrow> jsnum" where
  \<comment> \<open>the local \<open>angle\<close> of the loop body\<close>
  "bearing p1 p2 =
     (let dx = js_sub (snd p2) (snd p1);
          dy = js_sub (fst p2) (fst p1)
      in js_rem (js_add (js_div (js_mul (Math_atan2 dx dy) (Fin 180)) Math_PI) (Fin 360))
           (Fin 360))"

definition minDiff :: "jsnum \<Rightarrow> jsnum \<Rightarrow> jsnum" where
  "minDiff angle azimuthDeg =
     (let diff = Math_abs (js_sub angle azimuthDeg)
      in Math_min diff (js_sub (Fin 360) diff))"

definition litQuad :: "jsnum \<Rightarrow> latlng \<Rightarrow> latlng \<Rightarrow> latlng list" where
  \<comment> \<open>the corners computed in the lit branch\<close>
  "litQuad roadWidth p1 p2 =
     (let dx = js_sub (snd p2) (snd p1);
          dy = js_sub (fst p2) (fst p1);
          segLen = Math_sqrt (js_add (js_mul dx dx) (js_mul dy dy));
          offsetLat = js_mul (js_div roadWidth (Fin 110540)) (js_div dx segLen);
          offsetLon = js_mul (js_div roadWidth (Fin 111320)) (js_div (js_neg dy) segLen)
      in [(js_add (fst p1) offsetLat, js_add (snd p1) offsetLon),
          (js_add (fst p2) offsetLat, js_add (snd p2) offsetLon),
          (js_sub (fst p2) offsetLat, js_sub (snd p2) offsetLon),
          (js_sub (fst p1) offsetLat, js_sub (snd p1) offsetLon)])"

definition subSegment :: "jsnum \<Rightarrow> jsnum \<Rightarrow> latlng \<Rightarrow> latlng \<Rightarrow> polygon list" where
  \<comment> \<open>one turn of the loop over the point pairs: the polygons it adds to the street layer\<close>
  "subSegment roadWidth azimuthDeg p1 p2 =
     (if js_lt (minDiff (bearing p1 p2) azimuthDeg) (Fin 20)
      then [litPolygon (litQuad roadWidth p1 p2)]
      else [])"

fun forLoop :: "jsnum \<Rightarrow> jsnum \<Rightarrow> latlng list \<Rightarrow> polygon list" where
  \<comment> \<open>the loop over \<open>i < latlngs.length - 1\<close>, on the points from \<open>i\<close> on\<close>
  "forLoop roadWidth azimuthDeg (p1 # p2 # ps) =
     subSegment roadWidth azimuthDeg p1 p2 @ forLoop roadWidth azimuthDeg (p2 # ps)"
| "forLoop roadWidth azimuthDeg ps = []"

definition streetCallback :: "jsnum \<Rightarrow> jsnum \<Rightarrow> element \<Rightarrow> error + polygon list" where
  \<comment> \<open>the function given to \<open>streetData.forEach\<close>: the polygons it adds, or the error
      thrown by \<open>way.tags.highway\<close> on a way without tags\<close>
  "streetCallback roadWidth azimuthDeg way =
     (case geometry way of
        None \<Rightarrow> Inr []
      | Some g \<Rightarrow>
          (case tags way of
             None \<Rightarrow> Inl TypeError
           | Some t \<Rightarrow>
               if (case t ''highway'' of None \<Rightarrow> True | Some h \<Rightarrow> h \<notin> set accepted)
               then Inr []
               else
                 (let latlngs = map (\<lambda>pt. (lat pt, lon pt)) g
                  in if length latlngs < 2 then Inr []
                     else Inr (forLoop roadWidth azimuthDeg latlngs))))"

fun forEachStreet :: "jsnum \<Rightarrow> jsnum \<Rightarrow> element list \<Rightarrow> state \<Rightarrow> error option \<times> state" where
  "forEachStreet roadWidth azimuthDeg [] s = (None, s)"
| "forEachStreet roadWidth azimuthDeg (way # ways) s =
     (case streetCallback roadWidth azimuthDeg way of
        Inl e \<Rightarrow> (Some e, s)
      | Inr ps \<Rightarrow> forEachStreet roadWidth azimuthDeg ways (addTo ps (streetLayer s) s))"

definition adjustedAzimuth :: "jsnum \<Rightarrow> jsnum" where
  \<comment> \<open>the local \<open>azimuthDeg\<close>\<close>
  "adjustedAzimuth az = js_rem (js_add (js_div (js_mul az (Fin 180)) Math_PI) (Fin 180)) (Fin 360)"

definition drawStreets :: "sunOracle \<Rightarrow> jsnum \<Rightarrow> jsnum \<Rightarrow> jsnum \<Rightarrow> state \<Rightarrow> error option \<times> state" where
  "drawStreets getPosition lat0 lon0 hour s =
     (let s1 = clearLayers (streetLayer s) s;
          s2 = (snd (newLayerGroup s1))\<lparr>streetLayer := Some (fst (newLayerGroup s1))\<rparr>;
          sunPos = getPosition hour lat0 lon0;
          azimuthDeg = adjustedAzimuth (azimuth sunPos);
          altDeg = js_div (js_mul (altitude sunPos) (Fin 180)) Math_PI
      in if js_le altDeg (Fin 0) then (None, s2)
         else
           (let roadWidth = Fin 6
            in forEachStreet roadWidth azimuthDeg (streetData s2) s2))"

section \<open>\<open>drawBuildings\<close>\<close>

definition footprintPolygon :: "latlng list \<Rightarrow> polygon" where
  "footprintPolygon ps =
     \<lparr>latlngs = ps, color = ''#555'', fillColor = ''#999'', fillOpacity = 6 / 10, weight = 1\<rparr>"

definition truthyTag :: "element \<Rightarrow> string \<Rightarrow> string option" where
  \<comment> \<open>\<open>b.tags && b.tags[k]\<close> as a condition: the value when it counts as true, that is when
      the tags exist, have the key and the value is not the empty string\<close>
  "truthyTag b k =
     (case tags b of
        None \<Rightarrow> None
      | Some t \<Rightarrow> (case t k of None \<Rightarrow> None | Some v \<Rightarrow> if v = [] then None else Some v))"

definition heightEstimate :: "element \<Rightarrow> jsnum" where
  "heightEstimate b =
     (case truthyTag b ''building:height'' of
        Some v \<Rightarrow> parseFloat v
      | None \<Rightarrow>
          (case truthyTag b ''building:levels'' of
             Some v \<Rightarrow> js_mul (parseInt v) (Fin 3)
           | None \<Rightarrow> Fin 10))"

definition shadowLength :: "jsnum \<Rightarrow> jsnum \<Rightarrow> jsnum" where
  \<comment> \<open>the local \<open>shadowLen\<close>\<close>
  "shadowLength height alt = js_div height (Math_tan alt)"

text \<open>
  The callback of \<open>buildingData.forEach\<close> computes the shadow of each building in local
  variables and drops them. The model returns them beside the state, so that what is
  computed can be stated: one record of the locals for each building that is not skipped.
\<close>

record shadowCalc =
  calcHeight :: jsnum
  calcShadowLen :: jsnum
  calcAngle :: jsnum
  calcDx :: jsnum
  calcDy :: jsnum

definition buildingCallback :: "jsnum \<Rightarrow> jsnum \<Rightarrow> element \<Rightarrow> (polygon \<times> shadowCalc) option" where
  \<comment> \<open>the footprint polygon added to the building layer and the locals; None when the
      building is skipped\<close>
  "buildingCallback az alt b =
     (case geometry b of
        None \<Rightarrow> None
      | Some g \<Rightarrow>
          if length g < 3 then None
          else
            (let footprint = map (\<lambda>pt. (lon pt, lat pt)) g;
                 outline = footprintPolygon (map (\<lambda>p. (snd p, fst p)) footprint);
                 height = heightEstimate b;
                 shadowLen = shadowLength height alt;
                 angle = js_add az Math_PI;
                 dx = js_mul (js_div shadowLen (Fin 111320)) (Math_sin angle);
                 dy = js_mul (js_div shadowLen (Fin 110540)) (Math_cos angle)
             in Some (outline,
                  \<lparr>calcHeight = height, calcShadowLen = shadowLen, calcAngle = angle,
                   calcDx = dx, calcDy = dy\<rparr>)))"

fun forEachBuilding :: "jsnum \<Rightarrow> jsnum \<Rightarrow> element list \<Rightarrow> state \<Rightarrow> state \<times> shadowCalc list" where
  "forEachBuilding az alt [] s = (s, [])"
| "forEachBuilding az alt (b # bs) s =
     (case buildingCallback az alt b of
        None \<Rightarrow> forEachBuilding az alt bs s
      | Some (outline, c) \<Rightarrow>
          (fst (forEachBuilding az alt bs (addTo [outline] (buildingLayer s) s)),
           c # snd (forEachBuilding az alt bs (addTo [outline] (buildingLayer s) s))))"

definition drawBuildings :: "sunOracle \<Rightarrow> jsnum \<Rightarrow> jsnum \<Rightarrow> jsnum \<Rightarrow> state \<Rightarrow> state \<times> shadowCalc list" where
  "drawBuildings getPosition lat0 lon0 hour s =
     (let s1 = clearLayers (buildingLayer s) s;
          s2 = clearLayers (shadowLayer s1) s1;
          s3 = (snd (newLayerGroup s2))\<lparr>buildingLayer := Some (fst (newLayerGroup s2))\<rparr>;
          s4 = (snd (newLayerGroup s3))\<lparr>shadowLayer := Some (fst (newLayerGroup s3))\<rparr>;
          sunPos = getPosition hour lat0 lon0;
          az = azimuth sunPos;
          alt = altitude sunPos
      in if js_le alt (Fin 0) then (s4, [])
         else forEachBuilding az alt (buildingData s4) s4)"

section \<open>Updating the scene and the data\<close>

definition updateScene :: "sunOracle \<Rightarrow> jsnum \<Rightarrow> jsnum \<Rightarrow> jsnum \<Rightarrow> state \<Rightarrow> error option \<times> state" where
  \<comment> \<open>an error thrown by \<open>drawStreets\<close> leaves \<open>drawBuildings\<close> uncalled\<close>
  "updateScene getPosition lat0 lon0 hour s =
     (case drawStreets getPosition lat0 lon0 hour s of
        (Some e, s1) \<Rightarrow> (Some e, s1)
      | (None, s1) \<Rightarrow> (None, fst (drawBuildings getPosition lat0 lon0 hour s1)))"

definition truthy :: "string option \<Rightarrow> bool" where
  "truthy v = (case v of None \<Rightarrow> False | Some x \<Rightarrow> x \<noteq> [])"

definition isStreet :: "element \<Rightarrow> bool" where
  \<comment> \<open>\<open>e.tags && e.tags.highway\<close>\<close>
  "isStreet e = (case tags e of None \<Rightarrow> False | Some t \<Rightarrow> truthy (t ''highway''))"

fun filterBuildings :: "element list \<Rightarrow> error + element list" where
  \<comment> \<open>\<open>e.tags && e.tags.building && e.geometry.length >= 3\<close>; reading the length of a
      missing geometry throws\<close>
  "filterBuildings [] = Inr []"
| "filterBuildings (e # es) =
     (case tags e of
        None \<Rightarrow> filterBuildings es
      | Some t \<Rightarrow>
          if \<not> truthy (t ''building'') then filterBuildings es
          else
            (case geometry e of
               None \<Rightarrow> Inl TypeError
             | Some g \<Rightarrow>
                 (case filterBuildings es of
                    Inl err \<Rightarrow> Inl err
                  | Inr bs \<Rightarrow> Inr (if 3 \<le> length g then e # bs else bs))))"

definition updateData :: "sunOracle \<Rightarrow> element list \<Rightarrow> jsnum \<Rightarrow> jsnum \<Rightarrow> jsnum \<Rightarrow> state \<Rightarrow> error option \<times> state" where
  \<comment> \<open>the part of \<open>updateData\<close> after the fetch, on the elements it returned\<close>
  "updateData getPosition elements lat0 lon0 hour s =
     (let s1 = s\<lparr>streetData := filter isStreet elements\<rparr>
      in case filterBuildings elements of
           Inl e \<Rightarrow> (Some e, s1)
         | Inr bs \<Rightarrow> updateScene getPosition lat0 lon0 hour (s1\<lparr>buildingData := bs\<rparr>))"

text \<open>
  The states the page can be in: the script starts with empty data and no layers, and then
  every event (the first load, a click, a move of the slider) runs \<open>updateData\<close> or
  \<open>updateScene\<close> to its end or to an error.
\<close>

inductive reachable :: "sunOracle \<Rightarrow> state \<Rightarrow> bool" for getPosition :: sunOracle where
  reachable_initial: "reachable getPosition initial"
| reachable_updateData:
    "reachable getPosition s \<Longrightarrow>
     reachable getPosition (snd (updateData getPosition elements lat0 lon0 hour s))"
| reachable_updateScene:
    "reachable getPosition s \<Longrightarrow>
     reachable getPosition (snd (updateScene getPosition lat0 lon0 hour s))"


section \<open>What is on the map\<close>

definition layerPolygons :: "nat option \<Rightarrow> state \<Rightarrow> polygon list" where
  \<comment> \<open>the polygons of the group a layer variable refers to\<close>
  "layerPolygons layer s = (case layer of None \<Rightarrow> [] | Some l \<Rightarrow> mapLayers s ! l)"

definition scene :: "state \<Rightarrow> polygon list" where
  \<comment> \<open>every polygon of every group on the map\<close>
  "scene s = concat (mapLayers s)"

text \<open>The two kinds of polygons are told apart by their fill colour.\<close>

definition isLitQuad :: "polygon \<Rightarrow> bool" where
  "isLitQuad p = (fillColor p = ''gold'')"

definition isFootprint :: "polygon \<Rightarrow> bool" where
  "isFootprint p = (fillColor p = ''#999'')"

definition layersInv :: "state \<Rightarrow> bool" where
  \<comment> \<open>lit quads are in the group of \<open>streetLayer\<close> only, footprints in that of
      \<open>buildingLayer\<close> only; it holds in every reachable state\<close>
  "layersInv s =
     (\<forall>l < length (mapLayers s).
        (streetLayer s \<noteq> Some l \<longrightarrow> (\<forall>p \<in> set (mapLayers s ! l). \<not> isLitQuad p)) \<and>
        (buildingLayer s \<noteq> Some l \<longrightarrow> (\<forall>p \<in> set (mapLayers s ! l). \<not> isFootprint p)))"


text \<open>
  What the two loops do, without the state: the polygons the street loop adds up to the
  first error and that error, and what the building loop computes for the buildings it
  does not skip.
\<close>

fun streetPolygons :: "jsnum \<Rightarrow> jsnum \<Rightarrow> element list \<Rightarrow> polygon list" where
  "streetPolygons roadWidth azimuthDeg [] = []"
| "streetPolygons roadWidth azimuthDeg (way # ways) =
     (case streetCallback roadWidth azimuthDeg way of
        Inl e \<Rightarrow> []
      | Inr ps \<Rightarrow> ps @ streetPolygons roadWidth azimuthDeg ways)"

fun streetError :: "jsnum \<Rightarrow> jsnum \<Rightarrow> element list \<Rightarrow> error option" where
  "streetError roadWidth azimuthDeg [] = None"
| "streetError roadWidth azimuthDeg (way # ways) =
     (case streetCallback roadWidth azimuthDeg way of
        Inl e \<Rightarrow> Some e
      | Inr ps \<Rightarrow> streetError roadWidth azimuthDeg ways)"

fun buildingResults :: "jsnum \<Rightarrow> jsnum \<Rightarrow> element list \<Rightarrow> (polygon \<times> shadowCalc) list" where
  "buildingResults az alt [] = []"
| "buildingResults az alt (b # bs) =
     (case buildingCallback az alt b of
        None \<Rightarrow> buildingResults az alt bs
      | Some r \<Rightarrow> r # buildingResults az alt bs)"

text \<open>The same for the whole of \<open>drawStreets\<close> and \<open>drawBuildings\<close>, on given data.\<close>

definition streetQuads :: "sunOracle \<Rightarrow> jsnum \<Rightarrow> jsnum \<Rightarrow> jsnum \<Rightarrow> element list \<Rightarrow> polygon list" where
  "streetQuads getPosition lat0 lon0 hour ways =
     (if js_le (altitude (getPosition hour lat0 lon0)) (Fin 0) then []
      else streetPolygons (Fin 6) (adjustedAzimuth (azimuth (getPosition hour lat0 lon0))) ways)"

definition buildingCalcs :: "sunOracle \<Rightarrow> jsnum \<Rightarrow> jsnum \<Rightarrow> jsnum \<Rightarrow> element list \<Rightarrow> (polygon \<times> shadowCalc) list" where
  "buildingCalcs getPosition lat0 lon0 hour bs =
     (if js_le (altitude (getPosition hour lat0 lon0)) (Fin 0) then []
      else buildingResults (azimuth (getPosition hour lat0 lon0))
             (altitude (getPosition hour lat0 lon0)) bs)"

subsection \<open>Notions the properties are stated with\<close>

text \<open>The raw value of a tag, the highway value and the points of a way.\<close>

definition tagOf :: "element \<Rightarrow> string \<Rightarrow> string option" where
  "tagOf b k = (case tags b of None \<Rightarrow> None | Some t \<Rightarrow> t k)"

definition highwayOf :: "element \<Rightarrow> string option" where
  "highwayOf way = (case tags way of None \<Rightarrow> None | Some t \<Rightarrow> t ''highway'')"

definition pointsOf :: "element \<Rightarrow> pt list" where
  "pointsOf way = (case geometry way of None \<Rightarrow> [] | Some g \<Rightarrow> g)"

definition latlngsOf :: "pt list \<Rightarrow> latlng list" where
  \<comment> \<open>the local \<open>latlngs\<close> of the street callback\<close>
  "latlngsOf g = map (\<lambda>pt. (lat pt, lon pt)) g"

text \<open>A number of degrees in \<open>[0, 360)\<close>.\<close>

definition inDegreeRange :: "jsnum \<Rightarrow> bool" where
  "inDegreeRange x = (case x of Fin d \<Rightarrow> 0 \<le> d \<and> d < 360 | _ \<Rightarrow> False)"


text \<open>
  The circular distance of two angles in degrees, in the words of the specification:
  \<open>diff = |angle - azimuthDeg|\<close>, then \<open>min(diff, 360 - diff)\<close>. The script's own
  computation is \<open>minDiff\<close> above.
\<close>

definition circularDistance :: "real \<Rightarrow> real \<Rightarrow> real" where
  "circularDistance x y = min \<bar>x - y\<bar> (360 - \<bar>x - y\<bar>)"

text \<open>
  Points of the plane, the segment between two of them, and simple quadrilaterals: the four
  corners are distinct, two consecutive sides have their common corner in common and
  nothing else, and two opposite sides have nothing in common.
\<close>

type_synonym point = "real \<times> real"

definition segment :: "point \<Rightarrow> point \<Rightarrow> point set" where
  "segment P Q =
     {(fst P + t * (fst Q - fst P), snd P + t * (snd Q - snd P)) | t. 0 \<le> t \<and> t \<le> 1}"

definition simpleQuad :: "point \<Rightarrow> point \<Rightarrow> point \<Rightarrow> point \<Rightarrow> bool" where
  "simpleQuad A B C D =
     (distinct [A, B, C, D] \<and>
      segment A B \<inter> segment B C = {B} \<and>
      segment B C \<inter> segment C D = {C} \<and>
      segment C D \<inter> segment D A = {D} \<and>
      segment D A \<inter> segment A B = {A} \<and>
      segment A B \<inter> segment C D = {} \<and>
      segment B C \<inter> segment D A = {})"

section \<open>Sample inputs\<close>

text \<open>
  Two sun positions (one that rises with the hour and is up after twelve, one due north and
  45 degrees up), a few ways and buildings, and two states.
\<close>

definition sampleSun :: sunOracle where
  "sampleSun hour la lo = \<lparr>azimuth = Fin 0, altitude = js_div (js_sub hour (Fin 12)) (Fin 10)\<rparr>"

definition house :: element where
  "house = \<lparr>tags = Some [''building'' \<mapsto> ''yes'', ''building:levels'' \<mapsto> ''4''],
     geometry = Some [\<lparr>lat = Fin 1, lon = Fin 1\<rparr>, \<lparr>lat = Fin 1, lon = Fin 2\<rparr>,
                      \<lparr>lat = Fin 2, lon = Fin 2\<rparr>, \<lparr>lat = Fin 1, lon = Fin 1\<rparr>]\<rparr>"

definition northRoad :: element where
  "northRoad = \<lparr>tags = Some [''highway'' \<mapsto> ''residential''],
     geometry = Some [\<lparr>lat = Fin 0, lon = Fin 0\<rparr>, \<lparr>lat = Fin 1, lon = Fin 0\<rparr>]\<rparr>"

definition footpath :: element where
  "footpath = \<lparr>tags = Some [''highway'' \<mapsto> ''footway''],
     geometry = Some [\<lparr>lat = Fin 0, lon = Fin 0\<rparr>, \<lparr>lat = Fin 1, lon = Fin 0\<rparr>]\<rparr>"

definition sampleState :: state where
  "sampleState = initial\<lparr>streetData := [northRoad], buildingData := [house]\<rparr>"

definition dayState :: state where
  "dayState = snd (updateData sampleSun [house, northRoad] (Fin 48) (Fin 2) (Fin 14) initial)"

definition turningRoad :: element where
  "turningRoad = \<lparr>tags = Some [''highway'' \<mapsto> ''tertiary''],
     geometry = Some [\<lparr>lat = Fin 0, lon = Fin 0\<rparr>, \<lparr>lat = Fin 1, lon = Fin 0\<rparr>,
                      \<lparr>lat = Fin 1, lon = Fin 1\<rparr>, \<lparr>lat = Fin 0, lon = Fin 1\<rparr>]\<rparr>"

definition northSun :: sunOracle where
  "northSun hour la lo = \<lparr>azimuth = Fin pi, altitude = Fin (pi / 4)\<rparr>"

definition doubledRoad :: element where
  "doubledRoad = \<lparr>tags = Some [''highway'' \<mapsto> ''residential''],
     geometry = Some [\<lparr>lat = Fin 2, lon = Fin 1\<rparr>, \<lparr>lat = Fin 2, lon = Fin 1\<rparr>]\<rparr>"

definition threeCorners :: "pt list" where
  "threeCorners = [\<lparr>lat = Fin 1, lon = Fin 1\<rparr>, \<lparr>lat = Fin 1, lon = Fin 2\<rparr>, \<lparr>lat = Fin 2, lon = Fin 2\<rparr>]"

definition emptyHeightWithLevels :: element where
  "emptyHeightWithLevels =
     \<lparr>tags = Some [''building'' \<mapsto> ''yes'', ''building:height'' \<mapsto> '''', ''building:levels'' \<mapsto> ''4''],
      geometry = Some threeCorners\<rparr>"

definition emptyHeightOnly :: element where
  "emptyHeightOnly =
     \<lparr>tags = Some [''building'' \<mapsto> ''yes'', ''building:height'' \<mapsto> ''''],
      geometry = Some threeCorners\<rparr>"

definition tower :: element where
  "tower =
     \<lparr>tags = Some [''building'' \<mapsto> ''yes'', ''building:height'' \<mapsto> ''12.5'', ''building:levels'' \<mapsto> ''4''],
      geometry = Some threeCorners\<rparr>"

definition shed :: element where
  "shed = \<lparr>tags = Some [''building'' \<mapsto> ''yes''], geometry = Some threeCorners\<rparr>"

definition tallHouse :: element where
  "tallHouse =
     \<lparr>tags = Some [''building'' \<mapsto> ''yes'', ''building:height'' \<mapsto> ''tall'', ''building:levels'' \<mapsto> ''4''],
      geometry = Some threeCorners\<rparr>"

section \<open>Properties\<close>

subsection \<open>The two drawing functions and their loops\<close>

lemma altDeg_le_zero:
  "js_le (js_div (js_mul alt (Fin 180)) Math_PI) (Fin 0) = js_le alt (Fin 0)"
proof -
  have "\<not> pi \<le> 0" using pi_gt_zero by linarith
  then show ?thesis
    by (cases alt) (simp_all add: Math_PI_def sgnInf_def divide_le_0_iff mult_le_0_iff)
qed

lemma drawStreets_below:
  assumes "js_le (altitude (getPosition hour lat0 lon0)) (Fin 0)"
  shows "drawStreets getPosition lat0 lon0 hour s =
     (None, s\<lparr>mapLayers := mapLayers (clearLayers (streetLayer s) s) @ [[]],
              streetLayer := Some (length (mapLayers s))\<rparr>)"
  using assms
  by (cases "streetLayer s") (simp_all add: drawStreets_def Let_def altDeg_le_zero clearLayers_def newLayerGroup_def)

lemma drawBuildings_below:
  assumes "js_le (altitude (getPosition hour lat0 lon0)) (Fin 0)"
  shows "drawBuildings getPosition lat0 lon0 hour s =
     (s\<lparr>mapLayers := mapLayers (clearLayers (shadowLayer s) (clearLayers (buildingLayer s) s)) @ [[], []],
        buildingLayer := Some (length (mapLayers s)),
        shadowLayer := Some (Suc (length (mapLayers s)))\<rparr>, [])"
  using assms
  by (cases "buildingLayer s"; cases "shadowLayer s") (simp_all add: drawBuildings_def Let_def clearLayers_def newLayerGroup_def)

lemma subSegment_lit: "p \<in> set (subSegment w az p1 p2) \<Longrightarrow> isLitQuad p \<and> \<not> isFootprint p"
  by (auto simp add: subSegment_def litPolygon_def isLitQuad_def isFootprint_def split: if_splits)

lemma forLoop_lit: "p \<in> set (forLoop w az ps) \<Longrightarrow> isLitQuad p \<and> \<not> isFootprint p"
  by (induction w az ps rule: forLoop.induct) (auto dest: subSegment_lit)

lemma streetCallback_lit:
  "streetCallback w az way = Inr ps \<Longrightarrow> p \<in> set ps \<Longrightarrow> isLitQuad p \<and> \<not> isFootprint p"
  by (auto simp add: streetCallback_def Let_def split: option.splits if_splits dest: forLoop_lit)

lemma streetPolygons_lit: "p \<in> set (streetPolygons w az ways) \<Longrightarrow> isLitQuad p \<and> \<not> isFootprint p"
  by (induction ways) (auto split: sum.splits dest: streetCallback_lit [OF sym])

lemma addTo_append:
  "addTo ps (Some l) (s\<lparr>mapLayers := (mapLayers s)[l := mapLayers s ! l @ qs]\<rparr>)
     = s\<lparr>mapLayers := (mapLayers s)[l := mapLayers s ! l @ (qs @ ps)]\<rparr>"
  by (cases "l < length (mapLayers s)") (simp_all add: addTo_def not_less list_update_beyond)

lemma addTo_Some: "addTo ps (Some l) s = s\<lparr>mapLayers := (mapLayers s)[l := mapLayers s ! l @ ps]\<rparr>"
  by (simp add: addTo_def)

lemma forEachStreet_eq:
  "streetLayer s = Some l \<Longrightarrow>
   forEachStreet w az ways s =
     (streetError w az ways,
      s\<lparr>mapLayers := (mapLayers s)[l := mapLayers s ! l @ streetPolygons w az ways]\<rparr>)"
proof (induction ways arbitrary: s)
  case Nil
  then show ?case by simp
next
  case (Cons way ways)
  show ?case
  proof (cases "streetCallback w az way")
    case (Inl e)
    then show ?thesis by simp
  next
    case (Inr qs)
    let ?s1 = "s\<lparr>mapLayers := (mapLayers s)[l := mapLayers s ! l @ qs]\<rparr>"
    have l1: "streetLayer ?s1 = Some l" using Cons.prems by simp
    have "forEachStreet w az (way # ways) s = forEachStreet w az ways ?s1"
      using Inr Cons.prems by (simp add: addTo_Some)
    also have "\<dots> = (streetError w az ways,
        ?s1\<lparr>mapLayers := (mapLayers ?s1)[l := mapLayers ?s1 ! l @ streetPolygons w az ways]\<rparr>)"
      by (rule Cons.IH [OF l1])
    also have "?s1\<lparr>mapLayers := (mapLayers ?s1)[l := mapLayers ?s1 ! l @ streetPolygons w az ways]\<rparr>
        = s\<lparr>mapLayers := (mapLayers s)[l := mapLayers s ! l @ (qs @ streetPolygons w az ways)]\<rparr>"
      using addTo_append [of "streetPolygons w az ways" l s qs] by (simp add: addTo_Some)
    finally show ?thesis using Inr by simp
  qed
qed

lemma buildingCallback_footprint:
  "buildingCallback az alt b = Some (outline, c) \<Longrightarrow> isFootprint outline \<and> \<not> isLitQuad outline"
  by (auto simp add: buildingCallback_def Let_def footprintPolygon_def isFootprint_def isLitQuad_def
      split: option.splits if_splits)

lemma buildingResults_footprint:
  "p \<in> set (map fst (buildingResults az alt bs)) \<Longrightarrow> isFootprint p \<and> \<not> isLitQuad p"
  by (induction bs) (auto split: option.splits dest: buildingCallback_footprint)

lemma forEachBuilding_eq:
  "buildingLayer s = Some l \<Longrightarrow>
   forEachBuilding az alt bs s =
     (s\<lparr>mapLayers := (mapLayers s)[l := mapLayers s ! l @ map fst (buildingResults az alt bs)]\<rparr>,
      map snd (buildingResults az alt bs))"
proof (induction bs arbitrary: s)
  case Nil
  then show ?case by simp
next
  case (Cons b bs)
  show ?case
  proof (cases "buildingCallback az alt b")
    case None
    with Cons.IH [OF Cons.prems] show ?thesis by simp
  next
    case (Some oc)
    obtain outline c where oc: "oc = (outline, c)" by (cases oc)
    let ?s1 = "s\<lparr>mapLayers := (mapLayers s)[l := mapLayers s ! l @ [outline]]\<rparr>"
    let ?r = "buildingResults az alt bs"
    have l1: "buildingLayer ?s1 = Some l" using Cons.prems by simp
    have e: "?s1\<lparr>mapLayers := (mapLayers ?s1)[l := mapLayers ?s1 ! l @ map fst ?r]\<rparr>
        = s\<lparr>mapLayers := (mapLayers s)[l := mapLayers s ! l @ ([outline] @ map fst ?r)]\<rparr>"
      using addTo_append [of "map fst ?r" l s "[outline]"] by (simp add: addTo_Some)
    have "forEachBuilding az alt (b # bs) s =
        (fst (forEachBuilding az alt bs ?s1), c # snd (forEachBuilding az alt bs ?s1))"
      using Some oc Cons.prems by (simp add: addTo_Some)
    also have "forEachBuilding az alt bs ?s1 =
        (?s1\<lparr>mapLayers := (mapLayers ?s1)[l := mapLayers ?s1 ! l @ map fst ?r]\<rparr>, map snd ?r)"
      by (rule Cons.IH [OF l1])
    finally show ?thesis using Some oc e by simp
  qed
qed

lemma clearLayers_length [simp]: "length (mapLayers (clearLayers r s)) = length (mapLayers s)"
  by (cases r) (simp_all add: clearLayers_def)

lemma clearLayers_nth:
  "l < length (mapLayers s) \<Longrightarrow>
   mapLayers (clearLayers r s) ! l = (if r = Some l then [] else mapLayers s ! l)"
  by (cases r) (auto simp add: clearLayers_def)

lemma clearLayers_fields [simp]:
  "streetLayer (clearLayers r s) = streetLayer s"
  "buildingLayer (clearLayers r s) = buildingLayer s"
  "shadowLayer (clearLayers r s) = shadowLayer s"
  "streetData (clearLayers r s) = streetData s"
  "buildingData (clearLayers r s) = buildingData s"
  by (cases r; simp add: clearLayers_def)+

lemma drawBuildings_result:
  "mapLayers (fst (drawBuildings getPosition lat0 lon0 hour s)) =
     mapLayers (clearLayers (shadowLayer s) (clearLayers (buildingLayer s) s))
       @ [map fst (buildingCalcs getPosition lat0 lon0 hour (buildingData s)), []]"
  "snd (drawBuildings getPosition lat0 lon0 hour s) =
     map snd (buildingCalcs getPosition lat0 lon0 hour (buildingData s))"
  "streetLayer (fst (drawBuildings getPosition lat0 lon0 hour s)) = streetLayer s"
  "buildingLayer (fst (drawBuildings getPosition lat0 lon0 hour s)) = Some (length (mapLayers s))"
  "shadowLayer (fst (drawBuildings getPosition lat0 lon0 hour s)) = Some (Suc (length (mapLayers s)))"
  "streetData (fst (drawBuildings getPosition lat0 lon0 hour s)) = streetData s"
  "buildingData (fst (drawBuildings getPosition lat0 lon0 hour s)) = buildingData s"
proof -
  let ?c = "mapLayers (clearLayers (shadowLayer s) (clearLayers (buildingLayer s) s))"
  let ?n = "length (mapLayers s)"
  let ?alt = "altitude (getPosition hour lat0 lon0)"
  let ?az = "azimuth (getPosition hour lat0 lon0)"
  let ?d = "drawBuildings getPosition lat0 lon0 hour s"
  have n: "length ?c = ?n" by simp
  have "mapLayers (fst ?d) = ?c @ [map fst (buildingCalcs getPosition lat0 lon0 hour (buildingData s)), []]
      \<and> snd ?d = map snd (buildingCalcs getPosition lat0 lon0 hour (buildingData s))
      \<and> streetLayer (fst ?d) = streetLayer s \<and> buildingLayer (fst ?d) = Some ?n
      \<and> shadowLayer (fst ?d) = Some (Suc ?n)
      \<and> streetData (fst ?d) = streetData s \<and> buildingData (fst ?d) = buildingData s"
  proof (cases "js_le ?alt (Fin 0)")
    case True
    from drawBuildings_below [of getPosition hour lat0 lon0 s] True show ?thesis
      by (simp add: buildingCalcs_def)
  next
    case False
    define s1 where "s1 = clearLayers (buildingLayer s) s"
    define s2 where "s2 = clearLayers (shadowLayer s1) s1"
    define s3 where "s3 = (snd (newLayerGroup s2))\<lparr>buildingLayer := Some (fst (newLayerGroup s2))\<rparr>"
    define s4 where "s4 = (snd (newLayerGroup s3))\<lparr>shadowLayer := Some (fst (newLayerGroup s3))\<rparr>"
    have d: "?d = forEachBuilding ?az ?alt (buildingData s4) s4"
      using False by (simp add: drawBuildings_def Let_def s1_def s2_def s3_def s4_def)
    have f: "mapLayers s4 = ?c @ [[], []]" "buildingLayer s4 = Some ?n"
      "shadowLayer s4 = Some (Suc ?n)" "streetLayer s4 = streetLayer s"
      "streetData s4 = streetData s" "buildingData s4 = buildingData s"
      by (simp_all add: s4_def s3_def s2_def s1_def newLayerGroup_def)
    have "(?c @ [[], []])[?n := (?c @ [[], []]) ! ?n @ ps] = ?c @ [ps, []]" for ps
      using n by (simp add: nth_append list_update_append)
    with d f False show ?thesis
      by (simp add: forEachBuilding_eq [OF f(2)] buildingCalcs_def)
  qed
  then show
    "mapLayers (fst ?d) = ?c @ [map fst (buildingCalcs getPosition lat0 lon0 hour (buildingData s)), []]"
    "snd ?d = map snd (buildingCalcs getPosition lat0 lon0 hour (buildingData s))"
    "streetLayer (fst ?d) = streetLayer s" "buildingLayer (fst ?d) = Some ?n"
    "shadowLayer (fst ?d) = Some (Suc ?n)"
    "streetData (fst ?d) = streetData s" "buildingData (fst ?d) = buildingData s"
    by simp_all
qed

lemma drawStreets_result:
  "mapLayers (snd (drawStreets getPosition lat0 lon0 hour s)) =
     mapLayers (clearLayers (streetLayer s) s)
       @ [streetQuads getPosition lat0 lon0 hour (streetData s)]"
  "streetLayer (snd (drawStreets getPosition lat0 lon0 hour s)) = Some (length (mapLayers s))"
  "buildingLayer (snd (drawStreets getPosition lat0 lon0 hour s)) = buildingLayer s"
  "shadowLayer (snd (drawStreets getPosition lat0 lon0 hour s)) = shadowLayer s"
  "streetData (snd (drawStreets getPosition lat0 lon0 hour s)) = streetData s"
  "buildingData (snd (drawStreets getPosition lat0 lon0 hour s)) = buildingData s"
proof -
  let ?c = "mapLayers (clearLayers (streetLayer s) s)"
  let ?n = "length (mapLayers s)"
  let ?alt = "altitude (getPosition hour lat0 lon0)"
  let ?az = "adjustedAzimuth (azimuth (getPosition hour lat0 lon0))"
  let ?d = "drawStreets getPosition lat0 lon0 hour s"
  have n: "length ?c = ?n" by simp
  have "mapLayers (snd ?d) = ?c @ [streetQuads getPosition lat0 lon0 hour (streetData s)]
      \<and> streetLayer (snd ?d) = Some ?n \<and> buildingLayer (snd ?d) = buildingLayer s
      \<and> shadowLayer (snd ?d) = shadowLayer s
      \<and> streetData (snd ?d) = streetData s \<and> buildingData (snd ?d) = buildingData s"
  proof (cases "js_le ?alt (Fin 0)")
    case True
    from drawStreets_below [of getPosition hour lat0 lon0 s] True show ?thesis
      by (simp add: streetQuads_def)
  next
    case False
    define s1 where "s1 = clearLayers (streetLayer s) s"
    define s2 where "s2 = (snd (newLayerGroup s1))\<lparr>streetLayer := Some (fst (newLayerGroup s1))\<rparr>"
    have d: "?d = forEachStreet (Fin 6) ?az (streetData s2) s2"
      using False by (simp add: drawStreets_def Let_def s1_def s2_def altDeg_le_zero)
    have f: "mapLayers s2 = ?c @ [[]]" "streetLayer s2 = Some ?n"
      "shadowLayer s2 = shadowLayer s" "buildingLayer s2 = buildingLayer s"
      "streetData s2 = streetData s" "buildingData s2 = buildingData s"
      by (simp_all add: s2_def s1_def newLayerGroup_def)
    have "(?c @ [[]])[?n := (?c @ [[]]) ! ?n @ ps] = ?c @ [ps]" for ps
      using n by (simp add: nth_append list_update_append)
    with d f False show ?thesis
      by (simp add: forEachStreet_eq [OF f(2)] streetQuads_def)
  qed
  then show
    "mapLayers (snd ?d) = ?c @ [streetQuads getPosition lat0 lon0 hour (streetData s)]"
    "streetLayer (snd ?d) = Some ?n" "buildingLayer (snd ?d) = buildingLayer s"
    "shadowLayer (snd ?d) = shadowLayer s"
    "streetData (snd ?d) = streetData s" "buildingData (snd ?d) = buildingData s"
    by simp_all
qed

lemma drawStreets_error:
  "fst (drawStreets getPosition lat0 lon0 hour s) =
     (if js_le (altitude (getPosition hour lat0 lon0)) (Fin 0) then None
      else streetError (Fin 6) (adjustedAzimuth (azimuth (getPosition hour lat0 lon0))) (streetData s))"
proof -
  define s1 where "s1 = clearLayers (streetLayer s) s"
  define s2 where "s2 = (snd (newLayerGroup s1))\<lparr>streetLayer := Some (fst (newLayerGroup s1))\<rparr>"
  have f: "streetLayer s2 = Some (length (mapLayers s))" "streetData s2 = streetData s"
    by (simp_all add: s2_def s1_def newLayerGroup_def)
  show ?thesis
    unfolding drawStreets_def Let_def s1_def [symmetric] s2_def [symmetric]
    by (simp add: altDeg_le_zero forEachStreet_eq [OF f(1)] f(2))
qed

lemma streetQuads_lit:
  "p \<in> set (streetQuads getPosition lat0 lon0 hour ways) \<Longrightarrow> isLitQuad p \<and> \<not> isFootprint p"
  by (auto simp add: streetQuads_def dest: streetPolygons_lit split: if_splits)

lemma buildingCalcs_footprint:
  "p \<in> set (map fst (buildingCalcs getPosition lat0 lon0 hour bs)) \<Longrightarrow> isFootprint p \<and> \<not> isLitQuad p"
  using buildingResults_footprint by (auto simp add: buildingCalcs_def split: if_splits)

subsection \<open>The invariant of the layers\<close>

lemma layersInv_drawBuildings:
  assumes "layersInv s"
  shows "layersInv (fst (drawBuildings getPosition lat0 lon0 hour s))"
  unfolding layersInv_def drawBuildings_result using assms buildingCalcs_footprint
  by (auto simp add: layersInv_def nth_append clearLayers_nth less_Suc_eq split: if_splits)

lemma layersInv_drawStreets:
  assumes "layersInv s"
  shows "layersInv (snd (drawStreets getPosition lat0 lon0 hour s))"
  unfolding layersInv_def drawStreets_result using assms streetQuads_lit
  by (auto simp add: layersInv_def nth_append clearLayers_nth less_Suc_eq split: if_splits)

lemma layersInv_updateScene:
  assumes "layersInv s"
  shows "layersInv (snd (updateScene getPosition lat0 lon0 hour s))"
proof (cases "drawStreets getPosition lat0 lon0 hour s")
  case (Pair e s1)
  with layersInv_drawStreets [OF assms, of getPosition lat0 lon0 hour] have "layersInv s1" by simp
  with Pair layersInv_drawBuildings [of s1 getPosition lat0 lon0 hour] show ?thesis
    by (cases e) (simp_all add: updateScene_def)
qed

lemma layersInv_updateData:
  assumes "layersInv s"
  shows "layersInv (snd (updateData getPosition elements lat0 lon0 hour s))"
proof -
  have "layersInv (s\<lparr>streetData := a\<rparr>)" "layersInv (s\<lparr>streetData := a, buildingData := b\<rparr>)" for a b
    using assms by (simp_all add: layersInv_def)
  then show ?thesis
    by (cases "filterBuildings elements") (simp_all add: updateData_def Let_def layersInv_updateScene)
qed

lemma reachable_layersInv: "reachable getPosition s \<Longrightarrow> layersInv s"
proof (induction rule: reachable.induct)
  case reachable_initial
  show ?case by (simp add: initial_def layersInv_def)
next
  case (reachable_updateData s elements lat0 lon0 hour)
  then show ?case by (simp add: layersInv_updateData)
next
  case (reachable_updateScene s lat0 lon0 hour)
  then show ?case by (simp add: layersInv_updateScene)
qed

lemma addTo_Nil [simp]: "addTo [] r s = s"
  by (cases r) (simp_all add: addTo_def)

lemma streetCallback_skips:
  assumes "tags way \<noteq> None"
    and "highwayOf way \<notin> Some ` set accepted \<or> length (pointsOf way) < 2"
  shows "streetCallback w az way = Inr []"
  using assms
  by (auto simp add: streetCallback_def highwayOf_def pointsOf_def Let_def split: option.splits)

lemma streetPolygons_skip:
  "streetCallback w az way = Inr [] \<Longrightarrow>
   streetPolygons w az (ws1 @ way # ws2) = streetPolygons w az (ws1 @ ws2)"
  by (induction ws1) (simp_all split: sum.splits)

lemma streetError_skip:
  "streetCallback w az way = Inr [] \<Longrightarrow>
   streetError w az (ws1 @ way # ws2) = streetError w az (ws1 @ ws2)"
  by (induction ws1) (simp_all split: sum.splits)

lemma forEachStreet_skip:
  "streetCallback w az way = Inr [] \<Longrightarrow>
   forEachStreet w az (ws1 @ way # ws2) s = forEachStreet w az (ws1 @ ws2) s"
  by (induction ws1 arbitrary: s) (simp_all split: sum.splits)

lemma drawBuildings_no_footprints:
  assumes "layersInv s" and "js_le (altitude (getPosition hour lat0 lon0)) (Fin 0)"
  shows "\<forall>p \<in> set (scene (fst (drawBuildings getPosition lat0 lon0 hour s))). \<not> isFootprint p"
proof -
  have "\<not> isFootprint p"
    if "l < length (mapLayers s)"
      and "p \<in> set (mapLayers (clearLayers (shadowLayer s) (clearLayers (buildingLayer s) s)) ! l)"
    for l p
    using that assms(1)
    by (auto simp add: layersInv_def clearLayers_nth split: if_splits)
  then have "\<forall>ps \<in> set (mapLayers (clearLayers (shadowLayer s) (clearLayers (buildingLayer s) s))).
      \<forall>p \<in> set ps. \<not> isFootprint p"
    by (metis in_set_conv_nth clearLayers_length)
  with assms(2) show ?thesis
    by (auto simp add: scene_def drawBuildings_result buildingCalcs_def)
qed

subsection \<open>Angles\<close>

lemma rem360_range:
  assumes "0 \<le> x"
  shows "\<exists>r. js_rem (Fin x) (Fin 360) = Fin r \<and> 0 \<le> r \<and> r < 360"
proof -
  have q: "0 \<le> x / 360" using assms by simp
  have l: "of_int \<lfloor>x / 360\<rfloor> * 360 \<le> x"
    by (rule floor_divide_lower) simp
  have u: "x < (of_int \<lfloor>x / 360\<rfloor> + 1) * 360"
    by (rule floor_divide_upper) simp
  have "js_rem (Fin x) (Fin 360) = Fin (x - 360 * of_int \<lfloor>x / 360\<rfloor>)"
    using q by (simp add: truncQuotient_def)
  moreover have "0 \<le> x - 360 * of_int \<lfloor>x / 360\<rfloor>" using l by (simp add: mult.commute)
  moreover have "x - 360 * of_int \<lfloor>x / 360\<rfloor> < 360" using u by (simp add: algebra_simps)
  ultimately show ?thesis by blast
qed

lemma atan2_bounds: "- pi < atan2 y x \<and> atan2 y x \<le> pi"
proof -
  have b: "- (pi / 2) < arctan (y / x)" "arctan (y / x) < pi / 2"
    by (rule arctan_lbound, rule arctan_ubound)
  have p: "0 < pi" by simp
  consider "0 < x" | "x < 0" "0 \<le> y" | "x < 0" "y < 0" | "x = 0" by linarith
  then show ?thesis
  proof cases
    case 1
    then show ?thesis using b p by (simp add: atan2_def; linarith?)
  next
    case 2
    then have "y / x \<le> 0" by (simp add: divide_nonneg_neg)
    then have "arctan (y / x) \<le> 0" by (simp add: arctan_le_zero_iff)
    with 2 b p show ?thesis by (simp add: atan2_def; linarith?)
  next
    case 3
    then have "0 < y / x" by (simp add: divide_neg_neg)
    then have "0 < arctan (y / x)" by (simp add: zero_less_arctan_iff)
    with 3 b p show ?thesis by (simp add: atan2_def; linarith?)
  next
    case 4
    then have "atan2 y x = pi / 2 \<or> atan2 y x = - (pi / 2) \<or> atan2 y x = 0"
      by (simp add: atan2_def)
    then show ?thesis using p by (elim disjE; linarith)
  qed
qed

lemma degrees_bounds:
  assumes "- pi < t" "t \<le> pi"
  shows "- 180 < t * 180 / pi" "t * 180 / pi \<le> 180"
proof -
  have p: "0 < pi" by simp
  have "- pi * 180 < t * 180" using assms(1) by simp
  then have "- pi * 180 / pi < t * 180 / pi" using p by (simp only: divide_strict_right_mono)
  then show "- 180 < t * 180 / pi" by simp
  have "t * 180 \<le> pi * 180" using assms(2) by simp
  then have "t * 180 / pi \<le> pi * 180 / pi" using p by (simp only: divide_right_mono less_imp_le)
  then show "t * 180 / pi \<le> 180" by simp
qed

lemma adjustedAzimuth_Fin:
  assumes "- pi \<le> a"
  shows "\<exists>d. adjustedAzimuth (Fin a) = Fin d \<and> 0 \<le> d \<and> d < 360"
proof -
  have p: "0 < pi" by simp
  have "- pi * 180 \<le> a * 180" using assms by simp
  then have "- pi * 180 / pi \<le> a * 180 / pi" using p by (simp only: divide_right_mono less_imp_le)
  then have nn: "0 \<le> a * 180 / pi + 180" by simp
  have "adjustedAzimuth (Fin a) = js_rem (Fin (a * 180 / pi + 180)) (Fin 360)"
    by (simp add: adjustedAzimuth_def Math_PI_def)
  with rem360_range [OF nn] show ?thesis by simp
qed

lemma sqrt_scale:
  fixes x y :: real
  assumes "x \<noteq> 0"
  shows "sqrt (x * x + y * y) = \<bar>x\<bar> * sqrt (1 + (y / x)\<^sup>2)"
proof -
  have "x * x + y * y = (x * x) * (1 + (y / x)\<^sup>2)"
    using assms by (simp add: power2_eq_square field_simps)
  then have "sqrt (x * x + y * y) = sqrt (x * x) * sqrt (1 + (y / x)\<^sup>2)"
    by (simp only: real_sqrt_mult)
  then show ?thesis by simp
qed

lemma atan2_polar:
  fixes x y :: real
  shows "sqrt (x * x + y * y) * cos (atan2 y x) = x"
    and "sqrt (x * x + y * y) * sin (atan2 y x) = y"
proof -
  let ?r = "sqrt (x * x + y * y)"
  let ?q = "sqrt (1 + (y / x)\<^sup>2)"
  have q: "0 < ?q" by (simp add: add_pos_nonneg)
  have "?r * cos (atan2 y x) = x \<and> ?r * sin (atan2 y x) = y"
  proof -
    consider "0 < x" | "x < 0" "0 \<le> y" | "x < 0" "y < 0" | "x = 0" "0 < y" | "x = 0" "y < 0"
      | "x = 0" "y = 0" by linarith
    then show ?thesis
    proof cases
      case 1
      then have "?r = x * ?q" using sqrt_scale [of x y] by simp
      with 1 q show ?thesis by (simp add: atan2_def cos_arctan sin_arctan)
    next
      case 2
      then have "?r = - x * ?q" using sqrt_scale [of x y] by simp
      with 2 q show ?thesis by (simp add: atan2_def cos_arctan sin_arctan)
    next
      case 3
      then have "?r = - x * ?q" using sqrt_scale [of x y] by simp
      with 3 q show ?thesis by (simp add: atan2_def cos_arctan sin_arctan cos_diff sin_diff)
    next
      case 4
      then show ?thesis by (simp add: atan2_def)
    next
      case 5
      then show ?thesis by (simp add: atan2_def)
    next
      case 6
      then show ?thesis by (simp add: atan2_def)
    qed
  qed
  then show "?r * cos (atan2 y x) = x" and "?r * sin (atan2 y x) = y" by simp_all
qed


lemma rem360_floor:
  "0 \<le> v \<Longrightarrow> js_rem (Fin v) (Fin 360) = Fin (v - 360 * of_int \<lfloor>v / 360\<rfloor>)"
  by (simp add: truncQuotient_def)

lemma sin_cos_turns:
  "sin (t + (2 * pi) * of_int n) = sin t" "cos (t + (2 * pi) * of_int n) = cos t"
  by (simp_all add: sin_add cos_add)

lemma bearing_compass:
  fixes y1 x1 y2 x2 :: real
  defines "len \<equiv> sqrt ((x2 - x1) * (x2 - x1) + (y2 - y1) * (y2 - y1))"
  shows "\<exists>b. bearing (Fin y1, Fin x1) (Fin y2, Fin x2) = Fin b \<and> 0 \<le> b \<and> b < 360
    \<and> len * sin (b * pi / 180) = x2 - x1 \<and> len * cos (b * pi / 180) = y2 - y1
    \<and> (x2 - x1 = 0 \<and> y2 - y1 = 0 \<longrightarrow> b = 0)"
proof -
  define t where "t = atan2 (x2 - x1) (y2 - y1)"
  define v where "v = t * 180 / pi + 360"
  define k where "k = \<lfloor>v / 360\<rfloor>"
  define b where "b = v - 360 * of_int k"
  have "- 180 < t * 180 / pi" unfolding t_def using degrees_bounds(1) atan2_bounds by blast
  then have nn: "0 \<le> v" unfolding v_def by linarith
  have e: "bearing (Fin y1, Fin x1) (Fin y2, Fin x2) = Fin b"
    using rem360_floor [OF nn]
    by (simp add: bearing_def js_sub_def Math_PI_def t_def v_def k_def b_def)
  from rem360_range [OF nn] rem360_floor [OF nn] have r: "0 \<le> b" "b < 360"
    by (simp_all add: b_def k_def)
  have a: "b * pi / 180 = t + (2 * pi) * of_int (1 - k)"
    by (simp add: b_def v_def field_simps)
  have s: "len * sin (b * pi / 180) = x2 - x1"
    unfolding a sin_cos_turns len_def t_def
    using atan2_polar(2) [of "y2 - y1" "x2 - x1"] by (simp add: add.commute)
  have c: "len * cos (b * pi / 180) = y2 - y1"
    unfolding a sin_cos_turns len_def t_def
    using atan2_polar(1) [of "y2 - y1" "x2 - x1"] by (simp add: add.commute)
  have z: "b = 0" if "x2 - x1 = 0" "y2 - y1 = 0"
    using that by (simp add: b_def k_def v_def t_def atan2_def)
  from e r s c z show ?thesis by blast
qed

lemma bearing_east: "bearing (Fin 1, Fin 0) (Fin 1, Fin 1) = Fin 90"
  by (simp add: bearing_def js_sub_def atan2_def Math_PI_def truncQuotient_def)

lemma bearing_south: "bearing (Fin 1, Fin 1) (Fin 0, Fin 1) = Fin 180"
  by (simp add: bearing_def js_sub_def atan2_def Math_PI_def truncQuotient_def)

lemma bearing_west: "bearing (Fin 0, Fin 1) (Fin 0, Fin 0) = Fin 270"
  by (simp add: bearing_def js_sub_def atan2_def Math_PI_def truncQuotient_def)

lemma adjustedAzimuth_congruent:
  assumes "- pi \<le> a"
  shows "\<exists>k::int. adjustedAzimuth (Fin a) = Fin (a * 180 / pi + 180 - 360 * of_int k)"
proof -
  have p: "0 < pi" by simp
  have "- pi * 180 \<le> a * 180" using assms by simp
  then have "- pi * 180 / pi \<le> a * 180 / pi" using p by (simp only: divide_right_mono less_imp_le)
  then have nn: "0 \<le> a * 180 / pi + 180" by simp
  have "adjustedAzimuth (Fin a) = js_rem (Fin (a * 180 / pi + 180)) (Fin 360)"
    by (simp add: adjustedAzimuth_def Math_PI_def)
  with rem360_floor [OF nn] show ?thesis by auto
qed

lemma adjustedAzimuth_atan2:
  "\<exists>d. adjustedAzimuth (Math_atan2 (Fin y) (Fin x)) = Fin d \<and> 0 \<le> d \<and> d < 360"
proof -
  have "- pi \<le> atan2 y x" using atan2_bounds [of y x] by linarith
  from adjustedAzimuth_Fin [OF this] show ?thesis by simp
qed

lemma adjustedAzimuth_minus_pi: "adjustedAzimuth (Fin (- pi)) = Fin 0"
  by (simp add: adjustedAzimuth_def Math_PI_def truncQuotient_def)

lemma adjustedAzimuth_half_pi: "adjustedAzimuth (Fin (pi / 2)) = Fin 270"
  by (simp add: adjustedAzimuth_def Math_PI_def truncQuotient_def)

subsection \<open>The loop over the point pairs\<close>

lemma forLoop_index:
  "forLoop w az ps =
     concat (map (\<lambda>i. subSegment w az (ps ! i) (ps ! Suc i)) [0 ..< length ps - 1])"
proof (induction w az ps rule: forLoop.induct)
  case (1 w az p1 p2 ps)
  have "[0 ..< Suc (length ps)] = 0 # map Suc [0 ..< length ps]"
    by (simp add: upt_conv_Cons map_Suc_upt del: upt_Suc)
  then show ?case using 1 by (simp add: comp_def del: upt_Suc)
qed simp_all

lemma minDiff_Fin: "minDiff (Fin b) (Fin a) = Fin (circularDistance b a)"
  by (simp add: minDiff_def js_sub_def circularDistance_def)

lemma subSegment_Fin:
  "bearing p1 p2 = Fin b \<Longrightarrow>
   subSegment w (Fin a) p1 p2 =
     (if circularDistance b a < 20 then [litPolygon (litQuad w p1 p2)] else [])"
  by (simp add: subSegment_def minDiff_Fin)

lemma streetCallback_accepted:
  assumes "geometry way = Some g" "tags way = Some t" "t ''highway'' = Some h" "h \<in> set accepted"
  shows "streetCallback w az way = Inr (forLoop w az (latlngsOf g))"
proof (cases "length g < 2")
  case True
  then have "forLoop w az (latlngsOf g) = []"
    by (cases g; cases "tl g") (simp_all add: latlngsOf_def)
  with True assms show ?thesis by (simp add: streetCallback_def)
next
  case False
  with assms show ?thesis by (simp add: streetCallback_def latlngsOf_def)
qed

lemma bearing_north: "bearing (Fin 0, Fin 0) (Fin 1, Fin 0) = Fin 0"
  by (simp add: bearing_def js_sub_def atan2_def Math_PI_def truncQuotient_def)

lemma bearing_same_point: "bearing (Fin y, Fin x) (Fin y, Fin x) = Fin 0"
  by (simp add: bearing_def js_sub_def atan2_def Math_PI_def truncQuotient_def)

lemma litQuad_same_point:
  "litQuad w (Fin y, Fin x) (Fin y, Fin x) = [(NaN, NaN), (NaN, NaN), (NaN, NaN), (NaN, NaN)]"
  by (cases w) (simp_all add: litQuad_def js_sub_def sgnInf_def)

lemma adjustedAzimuth_pi: "adjustedAzimuth (Fin pi) = Fin 0"
  by (simp add: adjustedAzimuth_def Math_PI_def truncQuotient_def)

subsection \<open>Heights and shadows\<close>

lemmas parse_defs = parseFloat_def parseInt_def unsignedDecimal_def takeSign_def digitValue_def
  digitTable_def digitsValue_def exponentPart_def scale10_def isWhiteSpace_def

lemma truthyTag_tagOf:
  "truthyTag b k = (if truthy (tagOf b k) then tagOf b k else None)"
  by (simp add: truthyTag_def tagOf_def truthy_def split: option.splits)

lemma parseInt_4: "parseInt ''4'' = Fin 4"
  by (simp add: parse_defs)

lemma parseFloat_empty: "parseFloat [] = NaN"
  by (simp add: parse_defs)

lemma parseFloat_tall: "parseFloat ''tall'' = NaN"
  by (simp add: parse_defs)

lemma parseFloat_12_5: "parseFloat ''12.5'' = Fin (25 / 2)"
  by (simp add: parse_defs)


lemma buildingCallback_calc:
  "buildingCallback az alt b = Some (outline, c) \<Longrightarrow>
   calcHeight c = heightEstimate b \<and> calcShadowLen c = shadowLength (heightEstimate b) alt"
  by (auto simp add: buildingCallback_def Let_def split: option.splits if_splits)






subsection \<open>Parallelograms\<close>

lemma in_segment:
  "(x, y) \<in> segment (p1, p2) (q1, q2) \<longleftrightarrow>
     (\<exists>t. 0 \<le> t \<and> t \<le> 1 \<and> x = p1 + t * (q1 - p1) \<and> y = p2 + t * (q2 - p2))"
  by (auto simp add: segment_def)

lemma independent:
  fixes d1 d2 e1 e2 :: real
  assumes "d1 * e2 - d2 * e1 \<noteq> 0"
    and "\<alpha> * d1 + \<beta> * e1 = 0" and "\<alpha> * d2 + \<beta> * e2 = 0"
  shows "\<alpha> = 0" and "\<beta> = 0"
proof -
  have "\<alpha> * (d1 * e2 - d2 * e1) = (\<alpha> * d1 + \<beta> * e1) * e2 - (\<alpha> * d2 + \<beta> * e2) * e1"
    by (simp add: algebra_simps)
  also have "\<dots> = 0" using assms(2,3) by simp
  finally show "\<alpha> = 0" using assms(1) by simp
  have "\<beta> * (d1 * e2 - d2 * e1) = (\<alpha> * d2 + \<beta> * e2) * d1 - (\<alpha> * d1 + \<beta> * e1) * d2"
    by (simp add: algebra_simps)
  also have "\<dots> = 0" using assms(2,3) by simp
  finally show "\<beta> = 0" using assms(1) by simp
qed

lemma corner:
  fixes p1 p2 q1 q2 r1 r2 :: real
  assumes "(q1 - p1) * (r2 - q2) - (q2 - p2) * (r1 - q1) \<noteq> 0"
  shows "segment (p1, p2) (q1, q2) \<inter> segment (q1, q2) (r1, r2) = {(q1, q2)}"
proof (intro equalityI subsetI)
  fix X assume X: "X \<in> segment (p1, p2) (q1, q2) \<inter> segment (q1, q2) (r1, r2)"
  obtain x y where xy: "X = (x, y)" by (cases X)
  from X xy obtain t where t: "x = p1 + t * (q1 - p1)" "y = p2 + t * (q2 - p2)"
    by (auto simp add: in_segment)
  from X xy obtain s where s: "x = q1 + s * (r1 - q1)" "y = q2 + s * (r2 - q2)"
    by (auto simp add: in_segment)
  have 1: "(t - 1) * (q1 - p1) + (- s) * (r1 - q1) = 0" using t(1) s(1) by (simp add: algebra_simps)
  have 2: "(t - 1) * (q2 - p2) + (- s) * (r2 - q2) = 0" using t(2) s(2) by (simp add: algebra_simps)
  from independent(2) [OF assms 1 2] have "s = 0" by simp
  with s xy show "X \<in> {(q1, q2)}" by simp
next
  fix X assume "X \<in> {(q1, q2)}"
  then have X: "X = (q1, q2)" by simp
  have "(q1, q2) \<in> segment (p1, p2) (q1, q2)"
    unfolding in_segment by (rule exI [of _ 1]) simp
  moreover have "(q1, q2) \<in> segment (q1, q2) (r1, r2)"
    unfolding in_segment by (rule exI [of _ 0]) simp
  ultimately show "X \<in> segment (p1, p2) (q1, q2) \<inter> segment (q1, q2) (r1, r2)"
    using X by simp
qed

lemma opposite_sides:
  fixes a1 a2 d1 d2 e1 e2 :: real
  assumes "d1 * e2 - d2 * e1 \<noteq> 0"
  shows "segment (a1, a2) (a1 + d1, a2 + d2)
           \<inter> segment (a1 + d1 + e1, a2 + d2 + e2) (a1 + e1, a2 + e2) = {}"
proof -
  have False
    if "X \<in> segment (a1, a2) (a1 + d1, a2 + d2)"
      and "X \<in> segment (a1 + d1 + e1, a2 + d2 + e2) (a1 + e1, a2 + e2)" for X
  proof -
    obtain x y where xy: "X = (x, y)" by (cases X)
    from that(1) xy obtain t where t: "x = a1 + t * d1" "y = a2 + t * d2"
      by (auto simp add: in_segment)
    from that(2) xy obtain u where u: "x = a1 + d1 + e1 + u * (- d1)" "y = a2 + d2 + e2 + u * (- d2)"
      by (auto simp add: in_segment)
    have 1: "(t - 1 + u) * d1 + (- 1) * e1 = 0" using t(1) u(1) by (simp add: algebra_simps)
    have 2: "(t - 1 + u) * d2 + (- 1) * e2 = 0" using t(2) u(2) by (simp add: algebra_simps)
    from independent(2) [OF assms 1 2] show False by simp
  qed
  then show ?thesis by blast
qed

lemma parallelogram_simple:
  fixes a1 a2 d1 d2 e1 e2 :: real
  assumes c: "d1 * e2 - d2 * e1 \<noteq> 0"
  shows "simpleQuad (a1, a2) (a1 + d1, a2 + d2) (a1 + d1 + e1, a2 + d2 + e2) (a1 + e1, a2 + e2)"
proof -
  let ?A = "(a1, a2)" and ?B = "(a1 + d1, a2 + d2)"
  let ?C = "(a1 + d1 + e1, a2 + d2 + e2)" and ?D = "(a1 + e1, a2 + e2)"
  have dn: "\<not> (d1 = 0 \<and> d2 = 0)" and en: "\<not> (e1 = 0 \<and> e2 = 0)" using c by auto
  have de: "\<not> (d1 = e1 \<and> d2 = e2)" using c by (auto simp add: mult.commute)
  have dme: "\<not> (d1 + e1 = 0 \<and> d2 + e2 = 0)"
  proof
    assume "d1 + e1 = 0 \<and> d2 + e2 = 0"
    then have "e1 = - d1" "e2 = - d2" by simp_all
    with c show False by simp
  qed
  have dist: "distinct [?A, ?B, ?C, ?D]" using dn en de dme by auto
  have 1: "segment ?A ?B \<inter> segment ?B ?C = {?B}"
    by (rule corner) (use c in \<open>simp add: algebra_simps\<close>)
  have 2: "segment ?B ?C \<inter> segment ?C ?D = {?C}"
    by (rule corner) (use c in \<open>simp add: algebra_simps\<close>)
  have 3: "segment ?C ?D \<inter> segment ?D ?A = {?D}"
    by (rule corner) (use c in \<open>simp add: algebra_simps\<close>)
  have 4: "segment ?D ?A \<inter> segment ?A ?B = {?A}"
    by (rule corner) (use c in \<open>simp add: algebra_simps\<close>)
  have 5: "segment ?A ?B \<inter> segment ?C ?D = {}"
    by (rule opposite_sides [OF c])
  have c': "e1 * (- d2) - e2 * (- d1) \<noteq> 0" using c by (simp add: algebra_simps)
  have 6: "segment ?B ?C \<inter> segment ?D ?A = {}"
    using opposite_sides [of e1 "- d2" e2 "- d1" "a1 + d1" "a2 + d2"] c'
    by (simp add: algebra_simps)
  from dist 1 2 3 4 5 6 show ?thesis unfolding simpleQuad_def by blast
qed

lemma litQuad_Fin:
  fixes y1 x1 y2 x2 w :: real
  assumes "(y1, x1) \<noteq> (y2, x2)"
  defines "len \<equiv> sqrt ((x2 - x1) * (x2 - x1) + (y2 - y1) * (y2 - y1))"
  defines "n1 \<equiv> (x2 - x1) / len" and "n2 \<equiv> - (y2 - y1) / len"
  shows "0 < len"
    and "litQuad (Fin w) (Fin y1, Fin x1) (Fin y2, Fin x2) =
      [(Fin (y1 + w / 110540 * n1), Fin (x1 + w / 111320 * n2)),
       (Fin (y2 + w / 110540 * n1), Fin (x2 + w / 111320 * n2)),
       (Fin (y2 - w / 110540 * n1), Fin (x2 - w / 111320 * n2)),
       (Fin (y1 - w / 110540 * n1), Fin (x1 - w / 111320 * n2))]"
proof -
  have "x2 - x1 \<noteq> 0 \<or> y2 - y1 \<noteq> 0" using assms(1) by auto
  then have pos: "0 < (x2 - x1) * (x2 - x1) + (y2 - y1) * (y2 - y1)"
    by (metis add_pos_nonneg add_nonneg_pos zero_le_square not_real_square_gt_zero)
  then show l: "0 < len" by (simp add: len_def)
  have nn: "\<not> (x2 - x1) * (x2 - x1) + (y2 - y1) * (y2 - y1) < 0" using pos by linarith
  have "Math_sqrt (js_add (js_mul (Fin (x2 - x1)) (Fin (x2 - x1))) (js_mul (Fin (y2 - y1)) (Fin (y2 - y1))))
      = Fin len"
    using nn by (simp add: len_def)
  then show "litQuad (Fin w) (Fin y1, Fin x1) (Fin y2, Fin x2) =
      [(Fin (y1 + w / 110540 * n1), Fin (x1 + w / 111320 * n2)),
       (Fin (y2 + w / 110540 * n1), Fin (x2 + w / 111320 * n2)),
       (Fin (y2 - w / 110540 * n1), Fin (x2 - w / 111320 * n2)),
       (Fin (y1 - w / 110540 * n1), Fin (x1 - w / 111320 * n2))]"
    using l by (simp add: litQuad_def js_sub_def Let_def n1_def n2_def)
qed

lemma litQuad_north:
  "litQuad (Fin 6) (Fin 0, Fin 0) (Fin 1, Fin 0) =
     [(Fin 0, Fin (- (6 / 111320))), (Fin 1, Fin (- (6 / 111320))),
      (Fin 1, Fin (6 / 111320)), (Fin 0, Fin (6 / 111320))]"
  by (simp add: litQuad_def js_sub_def Let_def)

subsection \<open>The street data of a reachable state\<close>

lemma streetCallback_with_tags:
  "tags way \<noteq> None \<Longrightarrow> \<exists>ps. streetCallback w az way = Inr ps"
  by (auto simp add: streetCallback_def Let_def split: option.splits)

lemma isStreet_tags: "isStreet w \<Longrightarrow> tags w \<noteq> None"
  by (cases "tags w") (simp_all add: isStreet_def)

lemma updateScene_streetData:
  "streetData (snd (updateScene getPosition lat0 lon0 hour s)) = streetData s"
proof (cases "drawStreets getPosition lat0 lon0 hour s")
  case (Pair e s1)
  have "streetData s1 = streetData s"
    using drawStreets_result(5) [of getPosition lat0 lon0 hour s] Pair by simp
  with Pair show ?thesis
    by (cases e) (simp_all add: updateScene_def drawBuildings_result)
qed

lemma updateData_streetData:
  "streetData (snd (updateData getPosition elements lat0 lon0 hour s)) = filter isStreet elements"
  by (cases "filterBuildings elements") (simp_all add: updateData_def Let_def updateScene_streetData)

lemma reachable_streetData:
  "reachable getPosition s \<Longrightarrow> \<forall>w \<in> set (streetData s). tags w \<noteq> None"
proof (induction rule: reachable.induct)
  case reachable_initial
  show ?case by (simp add: initial_def)
next
  case (reachable_updateData s elements lat0 lon0 hour)
  show ?case by (simp add: updateData_streetData isStreet_tags)
next
  case (reachable_updateScene s lat0 lon0 hour)
  then show ?case by (simp add: updateScene_streetData)
qed

lemma streetError_with_tags:
  "\<forall>w \<in> set ways. tags w \<noteq> None \<Longrightarrow> streetError roadWidth azimuthDeg ways = None"
proof (induction ways)
  case Nil
  show ?case by simp
next
  case (Cons way ways)
  then obtain ps where "streetCallback roadWidth azimuthDeg way = Inr ps"
    using streetCallback_with_tags [of way roadWidth azimuthDeg] by auto
  with Cons show ?case by simp
qed

lemma reachable_no_error:
  "reachable getPosition s \<Longrightarrow> fst (drawStreets getPosition lat0 lon0 hour s) = None"
  using reachable_streetData [of getPosition s] streetError_with_tags
  by (simp add: drawStreets_error)

subsection \<open>The sample day\<close>

lemma dayState_footprint:
  "filter isFootprint (scene dayState) =
     [footprintPolygon [(Fin 1, Fin 1), (Fin 1, Fin 2), (Fin 2, Fin 2), (Fin 1, Fin 1)]]"
proof -
  let ?s = "initial\<lparr>streetData := [northRoad], buildingData := [house]\<rparr>"
  let ?d = "drawStreets sampleSun (Fin 48) (Fin 2) (Fin 14) ?s"
  let ?b = "drawBuildings sampleSun (Fin 48) (Fin 2) (Fin 14) (snd ?d)"
  have a: "\<not> js_le (altitude (sampleSun (Fin 14) (Fin 48) (Fin 2))) (Fin 0)"
    by (simp add: sampleSun_def js_sub_def)
  obtain ps where ps: "streetCallback (Fin 6) (adjustedAzimuth (azimuth (sampleSun (Fin 14) (Fin 48) (Fin 2)))) northRoad = Inr ps"
    using streetCallback_with_tags [of northRoad] by (auto simp add: northRoad_def)
  have e: "fst ?d = None" using a by (simp add: drawStreets_error ps)
  have u: "dayState = fst ?b"
    using e by (cases ?d)
      (simp add: dayState_def updateData_def updateScene_def isStreet_def truthy_def house_def northRoad_def)
  have g: "\<forall>p \<in> set (streetQuads sampleSun (Fin 48) (Fin 2) (Fin 14) [northRoad]). \<not> isFootprint p"
    using streetQuads_lit by blast
  have c: "buildingCalcs sampleSun (Fin 48) (Fin 2) (Fin 14) [house] =
      [the (buildingCallback (azimuth (sampleSun (Fin 14) (Fin 48) (Fin 2)))
              (altitude (sampleSun (Fin 14) (Fin 48) (Fin 2))) house)]"
    using a by (simp add: buildingCalcs_def buildingCallback_def house_def Let_def)
  have f: "fst (the (buildingCallback az alt house)) =
      footprintPolygon [(Fin 1, Fin 1), (Fin 1, Fin 2), (Fin 2, Fin 2), (Fin 1, Fin 1)]" for az alt
    by (simp add: buildingCallback_def house_def Let_def)
  show ?thesis
    unfolding u scene_def
    using g by (simp add: drawBuildings_result drawStreets_result c f initial_def clearLayers_def
        isFootprint_def footprintPolygon_def)
qed

section \<open>The claims\<close>

text \<open>
  Claim C1. When the altitude of the sun is at most zero, \<open>drawStreets\<close> returns without an
  error, the only change it makes to the map is to empty the old street group and to add a
  new one, which stays empty (no lit quad is emitted), and \<open>drawBuildings\<close> computes no
  shadow and leaves its new shadow group empty; whatever the state, its roads and its
  buildings are.
\<close>

theorem below_horizon_nothing_computed:
  assumes "js_le (altitude (getPosition hour lat0 lon0)) (Fin 0)"
  shows "fst (drawStreets getPosition lat0 lon0 hour s) = None
    \<and> mapLayers (snd (drawStreets getPosition lat0 lon0 hour s))
        = mapLayers (clearLayers (streetLayer s) s) @ [[]]
    \<and> layerPolygons (streetLayer (snd (drawStreets getPosition lat0 lon0 hour s)))
        (snd (drawStreets getPosition lat0 lon0 hour s)) = []
    \<and> snd (drawBuildings getPosition lat0 lon0 hour s) = []
    \<and> layerPolygons (shadowLayer (fst (drawBuildings getPosition lat0 lon0 hour s)))
        (fst (drawBuildings getPosition lat0 lon0 hour s)) = []"
  using assms
  by (simp add: drawStreets_error drawStreets_result drawBuildings_result streetQuads_def
      buildingCalcs_def layerPolygons_def nth_append)

text \<open>At three o'clock the sample sun is below the horizon.\<close>

theorem below_horizon_nothing_computed_witness:
  "js_le (altitude (sampleSun (Fin 3) (Fin 48) (Fin 2))) (Fin 0)
    \<and> fst (drawStreets sampleSun (Fin 48) (Fin 2) (Fin 3) sampleState) = None
    \<and> layerPolygons (streetLayer (snd (drawStreets sampleSun (Fin 48) (Fin 2) (Fin 3) sampleState)))
        (snd (drawStreets sampleSun (Fin 48) (Fin 2) (Fin 3) sampleState)) = []
    \<and> snd (drawBuildings sampleSun (Fin 48) (Fin 2) (Fin 3) sampleState) = []"
proof -
  have h: "js_le (altitude (sampleSun (Fin 3) (Fin 48) (Fin 2))) (Fin 0)"
    by (simp add: sampleSun_def js_sub_def)
  from below_horizon_nothing_computed [of sampleSun "Fin 3" "Fin 48" "Fin 2" sampleState] h
  show ?thesis by simp
qed

text \<open>
  Claim C2. For a way with an accepted highway value the callback runs the loop body on
  every pair of consecutive points, in their order. For a pair of points with finite
  coordinates the bearing is a number \<open>b\<close> of \<open>[0, 360)\<close>, the compass direction from the
  first point to the second (the differences of longitude and latitude are the length of
  the segment times the sine and the cosine of \<open>b\<close> degrees; 0 when the points coincide),
  and with a finite adjusted azimuth \<open>a\<close> the loop body emits the lit polygon of the pair
  exactly when the circular distance \<open>min \<bar>b - a\<bar> (360 - \<bar>b - a\<bar>)\<close> is less than 20,
  and nothing otherwise; at a distance of exactly 20 it emits nothing.
\<close>

theorem lit_iff_within_20_degrees:
  assumes "geometry way = Some g" "tags way = Some t" "t ''highway'' = Some h" "h \<in> set accepted"
  shows "streetCallback w az way =
      Inr (concat (map (\<lambda>i. subSegment w az (latlngsOf g ! i) (latlngsOf g ! Suc i))
             [0 ..< length g - 1]))
    \<and> (\<exists>b. bearing (Fin y1, Fin x1) (Fin y2, Fin x2) = Fin b \<and> 0 \<le> b \<and> b < 360
          \<and> sqrt ((x2 - x1) * (x2 - x1) + (y2 - y1) * (y2 - y1)) * sin (b * pi / 180) = x2 - x1
          \<and> sqrt ((x2 - x1) * (x2 - x1) + (y2 - y1) * (y2 - y1)) * cos (b * pi / 180) = y2 - y1
          \<and> (x2 - x1 = 0 \<and> y2 - y1 = 0 \<longrightarrow> b = 0)
          \<and> (subSegment w (Fin a) (Fin y1, Fin x1) (Fin y2, Fin x2) =
               [litPolygon (litQuad w (Fin y1, Fin x1) (Fin y2, Fin x2))]
             \<longleftrightarrow> circularDistance b a < 20)
          \<and> (subSegment w (Fin a) (Fin y1, Fin x1) (Fin y2, Fin x2) = []
             \<longleftrightarrow> \<not> circularDistance b a < 20)
          \<and> (circularDistance b a = 20
             \<longrightarrow> subSegment w (Fin a) (Fin y1, Fin x1) (Fin y2, Fin x2) = []))"
proof -
  have "length (latlngsOf g) = length g" by (simp add: latlngsOf_def)
  then have 1: "streetCallback w az way =
      Inr (concat (map (\<lambda>i. subSegment w az (latlngsOf g ! i) (latlngsOf g ! Suc i))
             [0 ..< length g - 1]))"
    using streetCallback_accepted [OF assms, of w az] forLoop_index [of w az "latlngsOf g"]
    by simp
  obtain b where b: "bearing (Fin y1, Fin x1) (Fin y2, Fin x2) = Fin b" "0 \<le> b" "b < 360"
    "sqrt ((x2 - x1) * (x2 - x1) + (y2 - y1) * (y2 - y1)) * sin (b * pi / 180) = x2 - x1"
    "sqrt ((x2 - x1) * (x2 - x1) + (y2 - y1) * (y2 - y1)) * cos (b * pi / 180) = y2 - y1"
    "x2 - x1 = 0 \<and> y2 - y1 = 0 \<longrightarrow> b = 0"
    using bearing_compass [of y1 x1 y2 x2] by blast
  have 2: "subSegment w (Fin a) (Fin y1, Fin x1) (Fin y2, Fin x2) =
      (if circularDistance b a < 20
       then [litPolygon (litQuad w (Fin y1, Fin x1) (Fin y2, Fin x2))] else [])"
    using b(1) by (rule subSegment_Fin)
  have 3: "(subSegment w (Fin a) (Fin y1, Fin x1) (Fin y2, Fin x2) =
               [litPolygon (litQuad w (Fin y1, Fin x1) (Fin y2, Fin x2))]
             \<longleftrightarrow> circularDistance b a < 20)
          \<and> (subSegment w (Fin a) (Fin y1, Fin x1) (Fin y2, Fin x2) = []
             \<longleftrightarrow> \<not> circularDistance b a < 20)
          \<and> (circularDistance b a = 20
             \<longrightarrow> subSegment w (Fin a) (Fin y1, Fin x1) (Fin y2, Fin x2) = [])"
    unfolding 2 by simp
  from 1 b 3 show ?thesis by blast
qed

text \<open>
  A road that runs north, then east, then south, with the adjusted azimuth at 350, at 20
  and at 75 degrees: only the first piece is lit, none is, only the second is.
\<close>

theorem lit_iff_within_20_degrees_witness:
  "geometry turningRoad =
      Some [\<lparr>lat = Fin 0, lon = Fin 0\<rparr>, \<lparr>lat = Fin 1, lon = Fin 0\<rparr>,
            \<lparr>lat = Fin 1, lon = Fin 1\<rparr>, \<lparr>lat = Fin 0, lon = Fin 1\<rparr>]
    \<and> tags turningRoad = Some [''highway'' \<mapsto> ''tertiary'']
    \<and> [''highway'' \<mapsto> ''tertiary''] ''highway'' = Some ''tertiary''
    \<and> ''tertiary'' \<in> set accepted
    \<and> bearing (Fin 0, Fin 0) (Fin 1, Fin 0) = Fin 0 \<and> circularDistance 0 350 = 10
    \<and> bearing (Fin 1, Fin 0) (Fin 1, Fin 1) = Fin 90 \<and> circularDistance 90 350 = 100
    \<and> bearing (Fin 1, Fin 1) (Fin 0, Fin 1) = Fin 180 \<and> circularDistance 180 350 = 170
    \<and> streetCallback (Fin 6) (Fin 350) turningRoad =
        Inr [litPolygon (litQuad (Fin 6) (Fin 0, Fin 0) (Fin 1, Fin 0))]
    \<and> circularDistance 0 20 = 20 \<and> circularDistance 90 20 = 70 \<and> circularDistance 180 20 = 160
    \<and> streetCallback (Fin 6) (Fin 20) turningRoad = Inr []
    \<and> circularDistance 0 75 = 75 \<and> circularDistance 90 75 = 15 \<and> circularDistance 180 75 = 105
    \<and> streetCallback (Fin 6) (Fin 75) turningRoad =
        Inr [litPolygon (litQuad (Fin 6) (Fin 1, Fin 0) (Fin 1, Fin 1))]"
proof -
  have h: "geometry turningRoad =
      Some [\<lparr>lat = Fin 0, lon = Fin 0\<rparr>, \<lparr>lat = Fin 1, lon = Fin 0\<rparr>,
            \<lparr>lat = Fin 1, lon = Fin 1\<rparr>, \<lparr>lat = Fin 0, lon = Fin 1\<rparr>]"
    "tags turningRoad = Some [''highway'' \<mapsto> ''tertiary'']"
    "[''highway'' \<mapsto> ''tertiary''] ''highway'' = Some ''tertiary''"
    "''tertiary'' \<in> set accepted"
    by (simp_all add: turningRoad_def accepted_def)
  have c: "circularDistance 0 350 = 10" "circularDistance 90 350 = 100" "circularDistance 180 350 = 170"
    "circularDistance 0 20 = 20" "circularDistance 90 20 = 70" "circularDistance 180 20 = 160"
    "circularDistance 0 75 = 75" "circularDistance 90 75 = 15" "circularDistance 180 75 = 105"
    by (simp_all add: circularDistance_def)
  have i: "[0 ..< 3] = [0, 1, 2]" by (simp add: upt_rec)
  note s = subSegment_Fin [OF bearing_north] subSegment_Fin [OF bearing_east]
    subSegment_Fin [OF bearing_south]
  from lit_iff_within_20_degrees [OF h, of "Fin 6" "Fin 350"]
  have 1: "streetCallback (Fin 6) (Fin 350) turningRoad =
        Inr [litPolygon (litQuad (Fin 6) (Fin 0, Fin 0) (Fin 1, Fin 0))]"
    by (simp add: latlngsOf_def i s c)
  from lit_iff_within_20_degrees [OF h, of "Fin 6" "Fin 20"]
  have 2: "streetCallback (Fin 6) (Fin 20) turningRoad = Inr []"
    by (simp add: latlngsOf_def i s c)
  from lit_iff_within_20_degrees [OF h, of "Fin 6" "Fin 75"]
  have 3: "streetCallback (Fin 6) (Fin 75) turningRoad =
        Inr [litPolygon (litQuad (Fin 6) (Fin 1, Fin 0) (Fin 1, Fin 1))]"
    by (simp add: latlngsOf_def i s c)
  from h c 1 2 3 bearing_north bearing_east bearing_south show ?thesis by simp
qed

text \<open>
  Claim C3 asks that a lit pair of coincident points be skipped before the offsets are
  computed. The loop body has no such test: for coincident points the bearing is 0, so the
  pair is lit whenever the adjusted azimuth is within 20 degrees of north, the segment
  length is 0, both offsets are \<open>0 / 0\<close>, and a polygon with four corners \<open>(NaN, NaN)\<close>
  is handed to the map. The evaluation below loads a residential way whose two points
  coincide, with the sun due north and above the horizon.
\<close>

theorem zero_length_segment_gives_NaN_quad:
  "updateData northSun [doubledRoad] (Fin (- 34)) (Fin 151) (Fin 2) initial =
     (None,
      \<lparr>mapLayers = [[litPolygon [(NaN, NaN), (NaN, NaN), (NaN, NaN), (NaN, NaN)]], [], []],
       streetData = [doubledRoad], buildingData = [],
       streetLayer = Some 0, buildingLayer = Some 1, shadowLayer = Some 2\<rparr>)"
proof -
  let ?s = "initial\<lparr>streetData := [doubledRoad], buildingData := []\<rparr>"
  let ?d = "drawStreets northSun (Fin (- 34)) (Fin 151) (Fin 2) ?s"
  let ?b = "drawBuildings northSun (Fin (- 34)) (Fin 151) (Fin 2) (snd ?d)"
  have a: "\<not> js_le (altitude (northSun (Fin 2) (Fin (- 34)) (Fin 151))) (Fin 0)"
    by (simp add: northSun_def not_le)
  have c: "streetCallback (Fin 6) (Fin 0) doubledRoad =
      Inr [litPolygon [(NaN, NaN), (NaN, NaN), (NaN, NaN), (NaN, NaN)]]"
    by (simp add: streetCallback_def doubledRoad_def accepted_def subSegment_def
        bearing_same_point litQuad_same_point minDiff_Fin circularDistance_def)
  have z: "adjustedAzimuth (azimuth (northSun (Fin 2) (Fin (- 34)) (Fin 151))) = Fin 0"
    by (simp add: northSun_def adjustedAzimuth_pi)
  have e: "fst ?d = None"
    using a by (simp add: drawStreets_error z c)
  have m: "mapLayers (snd ?d) = [[litPolygon [(NaN, NaN), (NaN, NaN), (NaN, NaN), (NaN, NaN)]]]"
    using a by (simp add: drawStreets_result streetQuads_def z c initial_def clearLayers_def)
  have f: "streetLayer (snd ?d) = Some 0" "buildingLayer (snd ?d) = None"
    "shadowLayer (snd ?d) = None" "streetData (snd ?d) = [doubledRoad]" "buildingData (snd ?d) = []"
    by (simp_all add: drawStreets_result initial_def)
  have u: "updateData northSun [doubledRoad] (Fin (- 34)) (Fin 151) (Fin 2) initial = (None, fst ?b)"
    using e by (cases ?d) (simp add: updateData_def updateScene_def doubledRoad_def isStreet_def truthy_def)
  have "fst ?b = \<lparr>mapLayers = [[litPolygon [(NaN, NaN), (NaN, NaN), (NaN, NaN), (NaN, NaN)]], [], []],
       streetData = [doubledRoad], buildingData = [],
       streetLayer = Some 0, buildingLayer = Some 1, shadowLayer = Some 2\<rparr>"
    by (rule state.equality)
       (simp_all add: drawBuildings_result m f clearLayers_def buildingCalcs_def)
  with u show ?thesis by simp
qed

text \<open>
  Claim C4. For two distinct endpoints with finite coordinates and a positive road width
  \<open>w\<close>, the corners computed are \<open>p1 + o\<close>, \<open>p2 + o\<close>, \<open>p2 - o\<close>, \<open>p1 - o\<close> in this order,
  where the offset \<open>o\<close> is \<open>w / 110540\<close> times the latitude component and \<open>w / 111320\<close>
  times the longitude component of a unit vector perpendicular to the direction of the
  segment; and the four corners form a simple quadrilateral: they are distinct,
  consecutive sides meet in their common corner only, and opposite sides do not meet.
\<close>

theorem lit_quad_is_simple:
  fixes y1 x1 y2 x2 w :: real
  assumes "(y1, x1) \<noteq> (y2, x2)" and "0 < w"
  shows "\<exists>n1 n2. n1 * n1 + n2 * n2 = 1 \<and> n1 * (y2 - y1) + n2 * (x2 - x1) = 0
    \<and> litQuad (Fin w) (Fin y1, Fin x1) (Fin y2, Fin x2) =
        [(Fin (y1 + w / 110540 * n1), Fin (x1 + w / 111320 * n2)),
         (Fin (y2 + w / 110540 * n1), Fin (x2 + w / 111320 * n2)),
         (Fin (y2 - w / 110540 * n1), Fin (x2 - w / 111320 * n2)),
         (Fin (y1 - w / 110540 * n1), Fin (x1 - w / 111320 * n2))]
    \<and> simpleQuad (y1 + w / 110540 * n1, x1 + w / 111320 * n2)
        (y2 + w / 110540 * n1, x2 + w / 111320 * n2)
        (y2 - w / 110540 * n1, x2 - w / 111320 * n2)
        (y1 - w / 110540 * n1, x1 - w / 111320 * n2)"
proof -
  define dx dy where "dx = x2 - x1" and "dy = y2 - y1"
  define len where "len = sqrt (dx * dx + dy * dy)"
  define n1 n2 where "n1 = dx / len" and "n2 = - dy / len"
  define o1 o2 where "o1 = w / 110540 * n1" and "o2 = w / 111320 * n2"
  have l: "0 < len"
    using litQuad_Fin(1) [OF assms(1)] by (simp add: len_def dx_def dy_def)
  have q: "litQuad (Fin w) (Fin y1, Fin x1) (Fin y2, Fin x2) =
        [(Fin (y1 + o1), Fin (x1 + o2)), (Fin (y2 + o1), Fin (x2 + o2)),
         (Fin (y2 - o1), Fin (x2 - o2)), (Fin (y1 - o1), Fin (x1 - o2))]"
    using litQuad_Fin(2) [OF assms(1), of w]
    by (simp add: o1_def o2_def n1_def n2_def len_def dx_def dy_def)
  have sq: "len * len = dx * dx + dy * dy"
  proof -
    have "0 \<le> dx * dx + dy * dy" by simp
    then show ?thesis unfolding len_def by simp
  qed
  have unit: "n1 * n1 + n2 * n2 = 1"
  proof -
    have "n1 * n1 + n2 * n2 = (dx * dx + dy * dy) / (len * len)"
      by (simp add: n1_def n2_def add_divide_distrib)
    also have "\<dots> = (len * len) / (len * len)" by (simp only: sq)
    also have "\<dots> = 1" using l by simp
    finally show ?thesis .
  qed
  have perp: "n1 * dy + n2 * dx = 0"
    by (simp add: n1_def n2_def)
  have cross: "dy * (- 2 * o2) - dx * (- 2 * o1) \<noteq> 0"
  proof -
    have "dx \<noteq> 0 \<or> dy \<noteq> 0" using assms(1) by (auto simp add: dx_def dy_def)
    then have "0 < w / 110540 * (dx * dx) + w / 111320 * (dy * dy)"
    proof
      assume "dx \<noteq> 0"
      then have p: "0 < dx * dx" by (metis not_real_square_gt_zero)
      have "0 < w / 110540" using assms(2) by simp
      from mult_pos_pos [OF this p] have "0 < w / 110540 * (dx * dx)" .
      moreover have "0 \<le> w / 111320 * (dy * dy)" using assms(2) by simp
      ultimately show ?thesis by linarith
    next
      assume "dy \<noteq> 0"
      then have p: "0 < dy * dy" by (metis not_real_square_gt_zero)
      have "0 < w / 111320" using assms(2) by simp
      from mult_pos_pos [OF this p] have "0 < w / 111320 * (dy * dy)" .
      moreover have "0 \<le> w / 110540 * (dx * dx)" using assms(2) by simp
      ultimately show ?thesis by linarith
    qed
    then have "0 < 2 * (w / 110540 * (dx * dx) + w / 111320 * (dy * dy))"
      by (rule mult_pos_pos [OF zero_less_numeral])
    then have "0 < 2 * (w / 110540 * (dx * dx) + w / 111320 * (dy * dy)) / len"
      using l by (rule divide_pos_pos)
    moreover have "dy * (- 2 * o2) - dx * (- 2 * o1)
        = 2 * (w / 110540 * (dx * dx) + w / 111320 * (dy * dy)) / len"
      by (simp add: o1_def o2_def n1_def n2_def algebra_simps add_divide_distrib)
    ultimately show ?thesis by linarith
  qed
  have "simpleQuad (y1 + o1, x1 + o2) (y1 + o1 + dy, x1 + o2 + dx)
      (y1 + o1 + dy + (- 2 * o1), x1 + o2 + dx + (- 2 * o2))
      (y1 + o1 + (- 2 * o1), x1 + o2 + (- 2 * o2))"
    by (rule parallelogram_simple [OF cross])
  moreover have "y1 + o1 + dy = y2 + o1" "x1 + o2 + dx = x2 + o2"
    "y1 + o1 + dy + (- 2 * o1) = y2 - o1" "x1 + o2 + dx + (- 2 * o2) = x2 - o2"
    "y1 + o1 + (- 2 * o1) = y1 - o1" "x1 + o2 + (- 2 * o2) = x1 - o2"
    by (simp_all add: dx_def dy_def)
  ultimately have s: "simpleQuad (y1 + o1, x1 + o2) (y2 + o1, x2 + o2) (y2 - o1, x2 - o2) (y1 - o1, x1 - o2)"
    by simp
  from unit perp q s show ?thesis
    unfolding o1_def o2_def dx_def dy_def by blast
qed

text \<open>The quad of a segment of one degree running north, for a road width of 6.\<close>

theorem lit_quad_is_simple_witness:
  "(0::real, 0::real) \<noteq> (1, 0) \<and> (0::real) < 6
    \<and> litQuad (Fin 6) (Fin 0, Fin 0) (Fin 1, Fin 0) =
        [(Fin 0, Fin (- (6 / 111320))), (Fin 1, Fin (- (6 / 111320))),
         (Fin 1, Fin (6 / 111320)), (Fin 0, Fin (6 / 111320))]
    \<and> simpleQuad (0, - (6 / 111320)) (1, - (6 / 111320)) (1, 6 / 111320) (0, 6 / 111320)"
proof -
  have h: "(0::real, 0::real) \<noteq> (1, 0)" "(0::real) < 6" by simp_all
  from lit_quad_is_simple [OF h] obtain n1 n2 :: real where
    q: "litQuad (Fin 6) (Fin 0, Fin 0) (Fin 1, Fin 0) =
        [(Fin (0 + 6 / 110540 * n1), Fin (0 + 6 / 111320 * n2)),
         (Fin (1 + 6 / 110540 * n1), Fin (0 + 6 / 111320 * n2)),
         (Fin (1 - 6 / 110540 * n1), Fin (0 - 6 / 111320 * n2)),
         (Fin (0 - 6 / 110540 * n1), Fin (0 - 6 / 111320 * n2))]"
    and s: "simpleQuad (0 + 6 / 110540 * n1, 0 + 6 / 111320 * n2)
        (1 + 6 / 110540 * n1, 0 + 6 / 111320 * n2)
        (1 - 6 / 110540 * n1, 0 - 6 / 111320 * n2)
        (0 - 6 / 110540 * n1, 0 - 6 / 111320 * n2)"
    by blast
  from q have "n1 = 0" "n2 = - 1" by (simp_all add: litQuad_north)
  with s have "simpleQuad (0, - (6 / 111320)) (1, - (6 / 111320)) (1, 6 / 111320) (0, 6 / 111320)"
    by simp
  with h litQuad_north show ?thesis by blast
qed

text \<open>
  Claim C5. A sun azimuth is a result of \<open>Math.atan2\<close> in the library, a number between
  \<open>-\<pi>\<close> and \<open>\<pi>\<close>. For every such azimuth the adjusted azimuth lies in \<open>[0, 360)\<close> and
  differs from \<open>azimuth * 180 / \<pi> + 180\<close> by a multiple of 360. For every pair of points
  with finite coordinates the bearing lies in \<open>[0, 360)\<close>, and it is the compass direction
  from the first point to the second: the differences of longitude and latitude are the
  length of the segment times its sine and its cosine.
\<close>

theorem angles_in_degree_range:
  "(- pi \<le> a \<and> a \<le> pi \<longrightarrow>
      inDegreeRange (adjustedAzimuth (Fin a))
      \<and> (\<exists>k::int. adjustedAzimuth (Fin a) = Fin (a * 180 / pi + 180 - 360 * of_int k)))
    \<and> inDegreeRange (adjustedAzimuth (Math_atan2 (Fin y) (Fin x)))
    \<and> inDegreeRange (bearing (Fin y1, Fin x1) (Fin y2, Fin x2))
    \<and> (\<exists>b. bearing (Fin y1, Fin x1) (Fin y2, Fin x2) = Fin b
          \<and> sqrt ((x2 - x1) * (x2 - x1) + (y2 - y1) * (y2 - y1)) * sin (b * pi / 180) = x2 - x1
          \<and> sqrt ((x2 - x1) * (x2 - x1) + (y2 - y1) * (y2 - y1)) * cos (b * pi / 180) = y2 - y1)"
proof -
  have 1: "inDegreeRange (adjustedAzimuth (Fin a))" if "- pi \<le> a"
    using adjustedAzimuth_Fin [OF that] by (auto simp add: inDegreeRange_def)
  have 2: "\<exists>k::int. adjustedAzimuth (Fin a) = Fin (a * 180 / pi + 180 - 360 * of_int k)"
    if "- pi \<le> a"
    using that by (rule adjustedAzimuth_congruent)
  have 3: "inDegreeRange (adjustedAzimuth (Math_atan2 (Fin y) (Fin x)))"
    using adjustedAzimuth_atan2 [of y x] by (auto simp add: inDegreeRange_def)
  obtain b where b: "bearing (Fin y1, Fin x1) (Fin y2, Fin x2) = Fin b" "0 \<le> b" "b < 360"
    "sqrt ((x2 - x1) * (x2 - x1) + (y2 - y1) * (y2 - y1)) * sin (b * pi / 180) = x2 - x1"
    "sqrt ((x2 - x1) * (x2 - x1) + (y2 - y1) * (y2 - y1)) * cos (b * pi / 180) = y2 - y1"
    using bearing_compass [of y1 x1 y2 x2] by blast
  then have 4: "inDegreeRange (bearing (Fin y1, Fin x1) (Fin y2, Fin x2))"
    by (simp add: inDegreeRange_def)
  from 1 2 3 4 b show ?thesis by blast
qed

text \<open>The sun in the west, in the north, and segments running east and west.\<close>

theorem angles_in_degree_range_witness:
  "- pi \<le> pi / 2 \<and> pi / 2 \<le> pi
    \<and> inDegreeRange (adjustedAzimuth (Fin (pi / 2)))
    \<and> adjustedAzimuth (Fin (pi / 2)) = Fin 270
    \<and> adjustedAzimuth (Fin (- pi)) = Fin 0
    \<and> adjustedAzimuth (Fin pi) = Fin 0
    \<and> inDegreeRange (bearing (Fin 1, Fin 0) (Fin 1, Fin 1))
    \<and> bearing (Fin 1, Fin 0) (Fin 1, Fin 1) = Fin 90
    \<and> bearing (Fin 0, Fin 1) (Fin 0, Fin 0) = Fin 270"
proof -
  have h: "- pi \<le> pi / 2" "pi / 2 \<le> pi" using pi_gt_zero by simp_all
  from angles_in_degree_range [of "pi / 2" 0 0 1 0 1 1] h
  have "inDegreeRange (adjustedAzimuth (Fin (pi / 2)))"
    "inDegreeRange (bearing (Fin 1, Fin 0) (Fin 1, Fin 1))"
    by blast+
  with h adjustedAzimuth_half_pi adjustedAzimuth_minus_pi adjustedAzimuth_pi
    bearing_east bearing_west
  show ?thesis by blast
qed

text \<open>
  Claim C6 says that a \<open>building:height\<close> tag that is present is parsed and used. The script
  tests the value of the tag, and the empty string counts as false: with an empty
  \<open>building:height\<close> and \<open>building:levels = 4\<close> the height is 12, not the result of
  parsing the empty string.
\<close>

theorem empty_height_tag_falls_through:
  "tagOf emptyHeightWithLevels ''building:height'' = Some []
    \<and> parseFloat [] = NaN
    \<and> heightEstimate emptyHeightWithLevels = Fin 12
    \<and> heightEstimate emptyHeightWithLevels \<noteq> parseFloat []"
  by (simp add: parseFloat_empty tagOf_def emptyHeightWithLevels_def heightEstimate_def
      truthyTag_def parseInt_4)

text \<open>
  Claim C6, amended. If the \<open>building:height\<close> tag is present and not empty, the height is
  its value parsed as a float; otherwise, if the \<open>building:levels\<close> tag is present and not
  empty, the height is its value parsed as an integer, times 3 (so 12 for \<open>4\<close>); otherwise
  the height is 10.
\<close>

theorem height_priority:
  "(tagOf b ''building:height'' = Some v \<and> v \<noteq> [] \<longrightarrow> heightEstimate b = parseFloat v)
    \<and> (\<not> truthy (tagOf b ''building:height'') \<and> tagOf b ''building:levels'' = Some u \<and> u \<noteq> []
         \<longrightarrow> heightEstimate b = js_mul (parseInt u) (Fin 3))
    \<and> (\<not> truthy (tagOf b ''building:height'') \<and> tagOf b ''building:levels'' = Some ''4''
         \<longrightarrow> heightEstimate b = Fin 12)
    \<and> (\<not> truthy (tagOf b ''building:height'') \<and> \<not> truthy (tagOf b ''building:levels'')
         \<longrightarrow> heightEstimate b = Fin 10)"
  by (auto simp add: heightEstimate_def truthyTag_tagOf truthy_def parseInt_4 split: option.splits)

text \<open>One building for each of the three cases.\<close>

theorem height_priority_witness:
  "tagOf tower ''building:height'' = Some ''12.5'' \<and> ''12.5'' \<noteq> []
    \<and> heightEstimate tower = Fin (25 / 2)
    \<and> \<not> truthy (tagOf house ''building:height'') \<and> tagOf house ''building:levels'' = Some ''4''
    \<and> heightEstimate house = Fin 12
    \<and> \<not> truthy (tagOf shed ''building:height'') \<and> \<not> truthy (tagOf shed ''building:levels'')
    \<and> heightEstimate shed = Fin 10"
proof -
  have t: "tagOf tower ''building:height'' = Some ''12.5''" "''12.5'' \<noteq> []"
    by (simp_all add: tagOf_def tower_def)
  have h: "\<not> truthy (tagOf house ''building:height'')" "tagOf house ''building:levels'' = Some ''4''"
    by (simp_all add: tagOf_def house_def truthy_def)
  have s: "\<not> truthy (tagOf shed ''building:height'')" "\<not> truthy (tagOf shed ''building:levels'')"
    by (simp_all add: tagOf_def shed_def truthy_def)
  from height_priority [of tower "''12.5''" "''4''"] t
  have 1: "heightEstimate tower = Fin (25 / 2)" by (simp add: parseFloat_12_5)
  from height_priority [of house "''x''" "''4''"] h
  have 2: "heightEstimate house = Fin 12" by blast
  from height_priority [of shed "''x''" "''4''"] s
  have 3: "heightEstimate shed = Fin 10" by blast
  from t h s 1 2 3 show ?thesis by simp
qed




text \<open>
  Claim C8. A way with tags (in a reachable state every way of the street data has them,
  see \<open>reachable_streetData\<close>) whose highway value is not one of primary, secondary,
  tertiary and residential, or which has fewer than two points, adds no polygon: the
  callback returns the empty list for it, and the loop and \<open>drawStreets\<close> give the same
  error and the same map with the way as without it.
\<close>

theorem rejected_way_contributes_nothing:
  assumes "tags way \<noteq> None"
    and "highwayOf way \<notin> Some ` set accepted \<or> length (pointsOf way) < 2"
  shows "streetCallback w az way = Inr []
    \<and> forEachStreet w az (ws1 @ way # ws2) s = forEachStreet w az (ws1 @ ws2) s
    \<and> fst (drawStreets getPosition lat0 lon0 hour (s\<lparr>streetData := ws1 @ way # ws2\<rparr>))
        = fst (drawStreets getPosition lat0 lon0 hour (s\<lparr>streetData := ws1 @ ws2\<rparr>))
    \<and> mapLayers (snd (drawStreets getPosition lat0 lon0 hour (s\<lparr>streetData := ws1 @ way # ws2\<rparr>)))
        = mapLayers (snd (drawStreets getPosition lat0 lon0 hour (s\<lparr>streetData := ws1 @ ws2\<rparr>)))"
proof -
  have c: "streetCallback w az way = Inr []" for w az
    using assms by (rule streetCallback_skips)
  have m: "mapLayers (clearLayers r (s\<lparr>streetData := d\<rparr>)) = mapLayers (clearLayers r s)" for r d
    by (cases r) (simp_all add: clearLayers_def)
  show ?thesis
    by (simp add: c forEachStreet_skip drawStreets_error drawStreets_result streetQuads_def
        streetPolygons_skip streetError_skip m)
qed

text \<open>A footway between two residential roads.\<close>

theorem rejected_way_contributes_nothing_witness:
  "tags footpath \<noteq> None
    \<and> highwayOf footpath = Some ''footway''
    \<and> ''footway'' \<notin> set accepted
    \<and> streetCallback (Fin 6) (Fin 0) footpath = Inr []
    \<and> forEachStreet (Fin 6) (Fin 0) ([northRoad] @ footpath # [northRoad]) sampleState
        = forEachStreet (Fin 6) (Fin 0) ([northRoad] @ [northRoad]) sampleState"
proof -
  have h1: "tags footpath \<noteq> None" by (simp add: footpath_def)
  have h: "highwayOf footpath = Some ''footway''" "''footway'' \<notin> set accepted"
    by (simp_all add: footpath_def highwayOf_def accepted_def)
  then have h2: "highwayOf footpath \<notin> Some ` set accepted \<or> length (pointsOf footpath) < 2"
    by auto
  from rejected_way_contributes_nothing [OF h1 h2, of "Fin 6" "Fin 0" "[northRoad]" "[northRoad]" sampleState]
    h1 h show ?thesis by blast
qed

text \<open>
  Claim C9. In every state the page can reach, when the altitude of the sun is at most zero,
  no footprint polygon is left on the map after \<open>drawBuildings\<close>, its new building group is
  empty, and the same holds after the whole of \<open>updateScene\<close>.
\<close>

theorem below_horizon_no_footprints:
  assumes "reachable getPosition s"
    and "js_le (altitude (getPosition hour lat0 lon0)) (Fin 0)"
  shows "filter isFootprint (scene (fst (drawBuildings getPosition lat0 lon0 hour s))) = []
    \<and> layerPolygons (buildingLayer (fst (drawBuildings getPosition lat0 lon0 hour s)))
        (fst (drawBuildings getPosition lat0 lon0 hour s)) = []
    \<and> filter isFootprint (scene (snd (updateScene getPosition lat0 lon0 hour s))) = []"
proof -
  have i: "layersInv s" using assms(1) by (rule reachable_layersInv)
  have a: "filter isFootprint (scene (fst (drawBuildings getPosition lat0 lon0 hour s))) = []"
    using drawBuildings_no_footprints [of s getPosition hour lat0 lon0, OF i assms(2)]
    by (simp add: filter_empty_conv)
  have b: "layerPolygons (buildingLayer (fst (drawBuildings getPosition lat0 lon0 hour s)))
        (fst (drawBuildings getPosition lat0 lon0 hour s)) = []"
    using assms(2) by (simp add: drawBuildings_result buildingCalcs_def layerPolygons_def nth_append)
  obtain e s1 where d: "drawStreets getPosition lat0 lon0 hour s = (e, s1)"
    by (cases "drawStreets getPosition lat0 lon0 hour s")
  have e: "e = None" using d drawStreets_error [of getPosition lat0 lon0 hour s] assms(2) by simp
  have "layersInv s1" using layersInv_drawStreets [OF i, of getPosition lat0 lon0 hour] d by simp
  from drawBuildings_no_footprints [of s1 getPosition hour lat0 lon0, OF this assms(2)] d e
  have c: "filter isFootprint (scene (snd (updateScene getPosition lat0 lon0 hour s))) = []"
    by (simp add: updateScene_def filter_empty_conv)
  from a b c show ?thesis by simp
qed

text \<open>
  The state after loading a house and a road at two in the afternoon, redrawn at three in
  the morning.
\<close>

theorem below_horizon_no_footprints_witness:
  "reachable sampleSun dayState
    \<and> filter isFootprint (scene dayState) =
        [footprintPolygon [(Fin 1, Fin 1), (Fin 1, Fin 2), (Fin 2, Fin 2), (Fin 1, Fin 1)]]
    \<and> js_le (altitude (sampleSun (Fin 3) (Fin 48) (Fin 2))) (Fin 0)
    \<and> filter isFootprint (scene (fst (drawBuildings sampleSun (Fin 48) (Fin 2) (Fin 3) dayState))) = []
    \<and> filter isFootprint (scene (snd (updateScene sampleSun (Fin 48) (Fin 2) (Fin 3) dayState))) = []"
proof -
  have r: "reachable sampleSun dayState"
    unfolding dayState_def by (rule reachable_updateData [OF reachable_initial])
  have h: "js_le (altitude (sampleSun (Fin 3) (Fin 48) (Fin 2))) (Fin 0)"
    by (simp add: sampleSun_def js_sub_def)
  from below_horizon_no_footprints [of sampleSun dayState "Fin 3" "Fin 48" "Fin 2", OF r h] r h
    dayState_footprint
  show ?thesis by simp
qed

text \<open>
  Claim C10 says that with a \<open>building:height\<close> tag present the default of 10 is never
  used. For a tag whose value is the empty string it is: the height is 10, not NaN.
\<close>

theorem empty_height_tag_uses_default:
  "tagOf emptyHeightOnly ''building:height'' = Some []
    \<and> parseFloat [] = NaN
    \<and> heightEstimate emptyHeightOnly = Fin 10
    \<and> heightEstimate emptyHeightOnly \<noteq> NaN"
  by (simp add: parseFloat_empty tagOf_def emptyHeightOnly_def heightEstimate_def truthyTag_def)

text \<open>
  Claim C10, amended. For a building whose \<open>building:height\<close> tag is present and not empty,
  the height is the value parsed as a float, whatever the \<open>building:levels\<close> tag is or
  whether there is one; when the value does not parse, the height is NaN and so is the
  shadow length, for every altitude, also in what the callback computes.
\<close>

theorem unparsable_height_is_NaN:
  assumes "tags b = Some t" and "t ''building:height'' = Some v" and "v \<noteq> []"
  shows "heightEstimate b = parseFloat v
    \<and> heightEstimate (b\<lparr>tags := Some (t(''building:levels'' := x))\<rparr>) = heightEstimate b
    \<and> (parseFloat v = NaN \<longrightarrow>
          heightEstimate b = NaN \<and> shadowLength (heightEstimate b) alt = NaN
          \<and> (buildingCallback az alt b = Some (outline, c)
               \<longrightarrow> calcHeight c = NaN \<and> calcShadowLen c = NaN))"
proof -
  have 1: "heightEstimate b = parseFloat v"
    using assms by (simp add: heightEstimate_def truthyTag_def)
  have 2: "heightEstimate (b\<lparr>tags := Some (t(''building:levels'' := x))\<rparr>) = parseFloat v"
    using assms by (simp add: heightEstimate_def truthyTag_def)
  have 3: "shadowLength NaN alt = NaN" by (simp add: shadowLength_def)
  from 1 2 3 buildingCallback_calc [of az alt b outline c] show ?thesis by auto
qed

text \<open>A building whose height is given as \<open>tall\<close>.\<close>

theorem unparsable_height_is_NaN_witness:
  "tags tallHouse = Some [''building'' \<mapsto> ''yes'', ''building:height'' \<mapsto> ''tall'', ''building:levels'' \<mapsto> ''4'']
    \<and> [''building'' \<mapsto> ''yes'', ''building:height'' \<mapsto> ''tall'', ''building:levels'' \<mapsto> ''4'']
         ''building:height'' = Some ''tall''
    \<and> ''tall'' \<noteq> []
    \<and> parseFloat ''tall'' = NaN
    \<and> heightEstimate tallHouse = NaN
    \<and> shadowLength (heightEstimate tallHouse) (Fin (pi / 4)) = NaN"
proof -
  have h: "tags tallHouse = Some [''building'' \<mapsto> ''yes'', ''building:height'' \<mapsto> ''tall'', ''building:levels'' \<mapsto> ''4'']"
    "[''building'' \<mapsto> ''yes'', ''building:height'' \<mapsto> ''tall'', ''building:levels'' \<mapsto> ''4'']
         ''building:height'' = Some ''tall''"
    "''tall'' \<noteq> []"
    by (simp_all add: tallHouse_def)
  from unparsable_height_is_NaN [OF h, of None "Fin (pi / 4)"] parseFloat_tall
  have "heightEstimate tallHouse = NaN" "shadowLength (heightEstimate tallHouse) (Fin (pi / 4)) = NaN"
    by blast+
  with h parseFloat_tall show ?thesis by blast
qed

end
